theory Spec2Isabelle
  imports Main "HOL-Library.Sublist"
begin

section \<open>Python values of the threat-intelligence pipeline (app.py)\<close>

text \<open>
  The pipeline of \<^verbatim>\<open>app.py\<close> handles the values that \<^verbatim>\<open>resp.json()\<close> yields and the
  dictionaries it builds from them. A value is \<^verbatim>\<open>None\<close>, a bool, an int, a str, a list or
  a dict with string keys. JSON numbers are integers here, as the numeric fields of the
  canonical report are; fractional numbers are outside the model. A dict is an
  association list in insertion order, with distinct keys.
\<close>

datatype pyval =
    PNone
  | PBool bool
  | PInt int
  | PStr string
  | PList "pyval list"
  | PDict "(string \<times> pyval) list"

type_synonym pydict = "(string \<times> pyval) list"

text \<open>
  The errors the pipeline can meet are instances of Python's \<^verbatim>\<open>Exception\<close>: the three
  the interpreter raises in the code below, and \<open>OtherError\<close> for whatever a
  collaborator (the HTTP client, the model, the alert manager, the store, the page and
  the standard output) raises.
  Interpreter-exit signals (\<^verbatim>\<open>KeyboardInterrupt\<close>, \<^verbatim>\<open>SystemExit\<close>) are not errors and are
  not modelled: they end the process from outside.
\<close>

datatype exn = AttributeError | KeyError | TypeError | OtherError string

text \<open>Truth value of an object, as \<^verbatim>\<open>if x\<close>, \<^verbatim>\<open>not x\<close> and \<^verbatim>\<open>x or y\<close> test it.\<close>

fun truthy :: "pyval \<Rightarrow> bool" where
  "truthy PNone = False"
| "truthy (PBool b) = b"
| "truthy (PInt n) = (n \<noteq> 0)"
| "truthy (PStr s) = (s \<noteq> [])"
| "truthy (PList xs) = (xs \<noteq> [])"
| "truthy (PDict d) = (d \<noteq> [])"

text \<open>\<^verbatim>\<open>x or y\<close>: the first operand when it is truthy, the second otherwise.\<close>

definition py_or :: "pyval \<Rightarrow> pyval \<Rightarrow> pyval" where
  "py_or x y = (if truthy x then x else y)"

text \<open>\<^verbatim>\<open>d.get(k)\<close>, \<^verbatim>\<open>d.get(k, default)\<close>, \<^verbatim>\<open>d[k]\<close> and \<^verbatim>\<open>d[k] = v\<close> on a dict.\<close>

definition dict_get :: "pydict \<Rightarrow> string \<Rightarrow> pyval option" where
  "dict_get d k = map_of d k"

definition dict_get_default :: "pydict \<Rightarrow> string \<Rightarrow> pyval \<Rightarrow> pyval" where
  "dict_get_default d k dflt = (case map_of d k of None \<Rightarrow> dflt | Some v \<Rightarrow> v)"

definition dict_index :: "pydict \<Rightarrow> string \<Rightarrow> exn + pyval" where
  "dict_index d k = (case map_of d k of None \<Rightarrow> Inl KeyError | Some v \<Rightarrow> Inr v)"

fun dict_set :: "pydict \<Rightarrow> string \<Rightarrow> pyval \<Rightarrow> pydict" where
  "dict_set [] k v = [(k, v)]"
| "dict_set ((k', v') # d) k v = (if k' = k then (k, v) # d else (k', v') # dict_set d k v)"

text \<open>
  The same two operations on a value that came out of JSON and need not be a dict:
  \<^verbatim>\<open>x.get(k, default)\<close> raises AttributeError on anything but a dict, \<^verbatim>\<open>x["k"]\<close> raises
  KeyError on a dict without the key and TypeError on every other value.
\<close>

fun py_get :: "pyval \<Rightarrow> string \<Rightarrow> pyval \<Rightarrow> exn + pyval" where
  "py_get (PDict d) k dflt = Inr (dict_get_default d k dflt)"
| "py_get _ k dflt = Inl AttributeError"

fun py_index :: "pyval \<Rightarrow> string \<Rightarrow> exn + pyval" where
  "py_index (PDict d) k = dict_index d k"
| "py_index _ k = Inl TypeError"

text \<open>\<^verbatim>\<open>x > 0\<close>: defined on int and bool, TypeError on None, str, list and dict.\<close>

fun py_gt0 :: "pyval \<Rightarrow> exn + bool" where
  "py_gt0 (PInt n) = Inr (0 < n)"
| "py_gt0 (PBool b) = Inr b"
| "py_gt0 _ = Inl TypeError"

text \<open>Sequencing of computations that may raise.\<close>

definition ebind :: "exn + 'a \<Rightarrow> ('a \<Rightarrow> exn + 'b) \<Rightarrow> exn + 'b" where
  "ebind m f = (case m of Inl e \<Rightarrow> Inl e | Inr x \<Rightarrow> f x)"

section \<open>Feature extraction and the alert condition (run-analysis, lines 154--159 and 169)\<close>

text \<open>
  The one row of \<^verbatim>\<open>features_df\<close>: four columns in the order of the dict literal, each
  \<^verbatim>\<open>report.get(k, 0) or 0\<close>.
\<close>

definition extract_features :: "pydict \<Rightarrow> pydict" where
  "extract_features report =
     [(''Malicious'', py_or (dict_get_default report ''Malicious'' (PInt 0)) (PInt 0)),
      (''Suspicious'', py_or (dict_get_default report ''Suspicious'' (PInt 0)) (PInt 0)),
      (''Abuse Confidence'', py_or (dict_get_default report ''Abuse Confidence'' (PInt 0)) (PInt 0)),
      (''Reputation'', py_or (dict_get_default report ''Reputation'' (PInt 0)) (PInt 0))]"

text \<open>
  \<^verbatim>\<open>report.get("Abuse Confidence", 0) > 0 or report.get("Malicious", 0) > 0\<close>: the right
  operand is evaluated only when the left one is False.
\<close>

definition should_alert :: "pydict \<Rightarrow> exn + bool" where
  "should_alert report =
     ebind (py_gt0 (dict_get_default report ''Abuse Confidence'' (PInt 0)))
       (\<lambda>a. if a then Inr True
            else py_gt0 (dict_get_default report ''Malicious'' (PInt 0)))"

section \<open>The outside world: HTTP client, environment, model, alert manager, store, output\<close>

text \<open>
  \<^verbatim>\<open>requests.get(url, headers=..., params=...)\<close> receives a request and either raises or
  returns a response, of which the adapters read \<^verbatim>\<open>status_code\<close> and \<^verbatim>\<open>json()\<close> (which
  raises on a body that is not JSON). The credential in a header is \<^verbatim>\<open>None\<close> or a string.
\<close>

record request =
  url :: string
  headers :: "(string \<times> string option) list"
  params :: "(string \<times> string) list"

record response =
  status_code :: int
  json :: "exn + pyval"

text \<open>
  The state of a run is the world outside and a trace: every call that leaves the
  pipeline is recorded, with what came back, in the order the calls happen. The trace is
  written only; no decision of the code reads it. An HTTP exchange is tagged with the
  name of the adapter that made it.
  The texts written with \<^verbatim>\<open>st.success\<close>, \<^verbatim>\<open>st.error\<close> and \<^verbatim>\<open>print\<close> are fixed
  words around interpolated values, and a text is given by these values: the three
  texts that \<^verbatim>\<open>print\<close> receives are the three \<open>message\<close>s, of lines 172, 175 and 180.
  Writing a text can raise, like any other call that leaves the pipeline (an encoding
  error, a closed stream), and the event records whether it did.
\<close>

datatype message =
    PrintSent pyval
  | PrintAlertFailed pyval exn
  | PrintError string exn

datatype event =
    HttpGet string request "exn + response"
  | Predict pydict "exn + pyval"
  | CheckAlerts pydict "exn option"
  | SendEmail pyval pydict "exn option"
  | SaveReport pydict "exn option"
  | StSuccess pyval "exn option"
  | StError pyval "exn option"
  | Print message "exn option"

text \<open>
  Modelled from the spec: the modules \<^verbatim>\<open>alert_manager\<close> and \<^verbatim>\<open>db_manager\<close> and the
  pickled model are not among the sources, so \<open>check_alerts\<close>, \<open>send_email_alert\<close>,
  \<open>save_report\<close> and \<open>model_predict\<close> (the expression
  \<^verbatim>\<open>rf_model.predict(features_df)[0]\<close>) are parameters, like the HTTP client,
  \<^verbatim>\<open>os.getenv\<close>, the two page calls \<^verbatim>\<open>st.success\<close> and \<^verbatim>\<open>st.error\<close>, and \<^verbatim>\<open>print\<close>.
  Each call is a transformer of an arbitrary world \<open>'w\<close> that may raise
  (\<open>Inl e\<close>, \<open>Some e\<close>) and reads the report it is given without changing it (best-effort
  delivery and fire-and-forget write, section 6 of the spec). The two widget values
  \<^verbatim>\<open>api_choice\<close> and \<^verbatim>\<open>user_api_key\<close> are strings; an empty \<^verbatim>\<open>user_api_key\<close> means no key
  was typed.
\<close>

record 'w env =
  requests_get :: "request \<Rightarrow> 'w \<Rightarrow> (exn + response) \<times> 'w"
  getenv :: "string \<Rightarrow> string option"
  model_predict :: "pydict \<Rightarrow> 'w \<Rightarrow> (exn + pyval) \<times> 'w"
  check_alerts :: "pydict \<Rightarrow> 'w \<Rightarrow> exn option \<times> 'w"
  send_email_alert :: "pyval \<Rightarrow> pydict \<Rightarrow> 'w \<Rightarrow> exn option \<times> 'w"
  save_report :: "pydict \<Rightarrow> 'w \<Rightarrow> exn option \<times> 'w"
  st_success :: "pyval \<Rightarrow> 'w \<Rightarrow> exn option \<times> 'w"
  st_error :: "pyval \<Rightarrow> 'w \<Rightarrow> exn option \<times> 'w"
  print :: "message \<Rightarrow> 'w \<Rightarrow> exn option \<times> 'w"
  api_choice :: string
  user_api_key :: string

record 'w run_state =
  world :: 'w
  trace :: "event list"

definition emit :: "event \<Rightarrow> 'w run_state \<Rightarrow> 'w run_state" where
  "emit ev s = s\<lparr>trace := trace s @ [ev]\<rparr>"

definition http_get :: "'w env \<Rightarrow> string \<Rightarrow> request \<Rightarrow> 'w run_state \<Rightarrow> (exn + response) \<times> 'w run_state" where
  "http_get env name req s =
     (case requests_get env req (world s) of
        (out, w') \<Rightarrow> (out, emit (HttpGet name req out) (s\<lparr>world := w'\<rparr>)))"

text \<open>
  A call made for its effect only (it returns \<^verbatim>\<open>None\<close> or raises): the world moves on
  and the event of the call is recorded with its outcome.
\<close>

definition effect ::
  "('w \<Rightarrow> exn option \<times> 'w) \<Rightarrow> (exn option \<Rightarrow> event) \<Rightarrow> 'w run_state \<Rightarrow> exn option \<times> 'w run_state" where
  "effect call ev s =
     (case call (world s) of
        (r, w') \<Rightarrow> (r, emit (ev r) (s\<lparr>world := w'\<rparr>)))"

section \<open>Provider adapters (lines 60--109)\<close>

text \<open>
  Each adapter builds its request, makes one call, and on status 200 builds the report
  from the decoded body; on any other status it falls off the end and returns
  \<^verbatim>\<open>None\<close>. The values of the dict literal are evaluated in the order written.
\<close>

definition vt_request :: "string \<Rightarrow> string option \<Rightarrow> request" where
  "vt_request ip key =
     \<lparr>url = ''https://www.virustotal.com/api/v3/ip_addresses/'' @ ip,
      headers = [(''x-apikey'', key)],
      params = []\<rparr>"

definition vt_report :: "string \<Rightarrow> pyval \<Rightarrow> exn + pydict" where
  "vt_report ip body =
     ebind (py_get body ''data'' (PDict [])) (\<lambda>d.
     ebind (py_get d ''attributes'' (PDict [])) (\<lambda>data.
     ebind (py_get data ''country'' (PStr ''N/A'')) (\<lambda>country.
     ebind (py_get data ''asn'' (PStr ''N/A'')) (\<lambda>asn.
     ebind (py_get data ''last_analysis_stats'' (PDict [])) (\<lambda>stats.
     ebind (py_get stats ''malicious'' (PInt 0)) (\<lambda>malicious.
     ebind (py_get data ''last_analysis_stats'' (PDict [])) (\<lambda>stats'.
     ebind (py_get stats' ''suspicious'' (PInt 0)) (\<lambda>suspicious.
       Inr [(''IP'', PStr ip),
            (''Country'', country),
            (''ASN'', asn),
            (''Malicious'', malicious),
            (''Suspicious'', suspicious),
            (''Abuse Confidence'', PInt 0),
            (''Reputation'', PInt 0),
            (''Source'', PStr ''VirusTotal'')]))))))))"

definition vt_result :: "string \<Rightarrow> exn + response \<Rightarrow> exn + pydict option" where
  "vt_result ip out =
     (case out of
        Inl e \<Rightarrow> Inl e
      | Inr resp \<Rightarrow>
          if status_code resp = 200
          then ebind (json resp) (\<lambda>body. ebind (vt_report ip body) (\<lambda>r. Inr (Some r)))
          else Inr None)"

definition get_virustotal ::
  "'w env \<Rightarrow> string \<Rightarrow> string option \<Rightarrow> 'w run_state \<Rightarrow> (exn + pydict option) \<times> 'w run_state" where
  "get_virustotal env ip key s =
     (case http_get env ''VirusTotal'' (vt_request ip key) s of
        (out, s') \<Rightarrow> (vt_result ip out, s'))"

definition abuseipdb_request :: "string \<Rightarrow> string option \<Rightarrow> request" where
  "abuseipdb_request ip key =
     \<lparr>url = ''https://api.abuseipdb.com/api/v2/check'',
      headers = [(''Key'', key), (''Accept'', Some ''application/json'')],
      params = [(''ipAddress'', ip), (''maxAgeInDays'', ''90'')]\<rparr>"

definition abuseipdb_report :: "string \<Rightarrow> pyval \<Rightarrow> exn + pydict" where
  "abuseipdb_report ip body =
     ebind (py_index body ''data'') (\<lambda>data.
     ebind (py_get data ''countryCode'' (PStr ''N/A'')) (\<lambda>country.
     ebind (py_get data ''isp'' (PStr ''N/A'')) (\<lambda>isp.
     ebind (py_get data ''abuseConfidenceScore'' (PInt 0)) (\<lambda>score.
       Inr [(''IP'', PStr ip),
            (''Country'', country),
            (''ISP'', isp),
            (''Malicious'', PInt 0),
            (''Suspicious'', PInt 0),
            (''Abuse Confidence'', score),
            (''Reputation'', PInt 0),
            (''Source'', PStr ''AbuseIPDB'')]))))"

definition abuseipdb_result :: "string \<Rightarrow> exn + response \<Rightarrow> exn + pydict option" where
  "abuseipdb_result ip out =
     (case out of
        Inl e \<Rightarrow> Inl e
      | Inr resp \<Rightarrow>
          if status_code resp = 200
          then ebind (json resp) (\<lambda>body. ebind (abuseipdb_report ip body) (\<lambda>r. Inr (Some r)))
          else Inr None)"

definition get_abuseipdb ::
  "'w env \<Rightarrow> string \<Rightarrow> string option \<Rightarrow> 'w run_state \<Rightarrow> (exn + pydict option) \<times> 'w run_state" where
  "get_abuseipdb env ip key s =
     (case http_get env ''AbuseIPDB'' (abuseipdb_request ip key) s of
        (out, s') \<Rightarrow> (abuseipdb_result ip out, s'))"

definition otx_request :: "string \<Rightarrow> string option \<Rightarrow> request" where
  "otx_request ip key =
     \<lparr>url = ''https://otx.alienvault.com/api/v1/indicators/IPv4/'' @ ip @ ''/general'',
      headers = [(''X-OTX-API-KEY'', key)],
      params = []\<rparr>"

definition otx_report :: "string \<Rightarrow> pyval \<Rightarrow> exn + pydict" where
  "otx_report ip data =
     ebind (py_get data ''country_name'' (PStr ''N/A'')) (\<lambda>country.
     ebind (py_get data ''reputation'' (PInt 0)) (\<lambda>reputation.
       Inr [(''IP'', PStr ip),
            (''Country'', country),
            (''Malicious'', PInt 0),
            (''Suspicious'', PInt 0),
            (''Abuse Confidence'', PInt 0),
            (''Reputation'', reputation),
            (''Source'', PStr ''AlienVault OTX'')]))"

definition otx_result :: "string \<Rightarrow> exn + response \<Rightarrow> exn + pydict option" where
  "otx_result ip out =
     (case out of
        Inl e \<Rightarrow> Inl e
      | Inr resp \<Rightarrow>
          if status_code resp = 200
          then ebind (json resp) (\<lambda>data. ebind (otx_report ip data) (\<lambda>r. Inr (Some r)))
          else Inr None)"

definition get_otx ::
  "'w env \<Rightarrow> string \<Rightarrow> string option \<Rightarrow> 'w run_state \<Rightarrow> (exn + pydict option) \<times> 'w run_state" where
  "get_otx env ip key s =
     (case http_get env ''AlienVault OTX'' (otx_request ip key) s of
        (out, s') \<Rightarrow> (otx_result ip out, s'))"

section \<open>Credentials and the hybrid fallback (lines 32--36, 111--139)\<close>

type_synonym 'w adapter =
  "'w env \<Rightarrow> string \<Rightarrow> string option \<Rightarrow> 'w run_state \<Rightarrow> (exn + pydict option) \<times> 'w run_state"

definition api_key_env_map :: "(string \<times> string) list" where
  "api_key_env_map =
     [(''VirusTotal'', ''VT_API_KEY''),
      (''AbuseIPDB'', ''ABUSEIPDB_API_KEY''),
      (''AlienVault OTX'', ''OTX_API_KEY'')]"

definition api_function_map :: "(string \<times> 'w adapter) list" where
  "api_function_map =
     [(''VirusTotal'', get_virustotal),
      (''AbuseIPDB'', get_abuseipdb),
      (''AlienVault OTX'', get_otx)]"

definition fallback_keys :: "'w env \<Rightarrow> (string \<times> string option) list" where
  "fallback_keys env =
     [(''VirusTotal'', getenv env ''VT_API_KEY''),
      (''AbuseIPDB'', getenv env ''ABUSEIPDB_API_KEY''),
      (''AlienVault OTX'', getenv env ''OTX_API_KEY'')]"

definition hybrid_functions :: "(string \<times> 'w adapter) list" where
  "hybrid_functions =
     [(''VirusTotal'', get_virustotal),
      (''AbuseIPDB'', get_abuseipdb),
      (''AlienVault OTX'', get_otx)]"

text \<open>Truth value of a credential: \<^verbatim>\<open>None\<close> and the empty string are falsy.\<close>

definition key_truthy :: "string option \<Rightarrow> bool" where
  "key_truthy k = (case k of None \<Rightarrow> False | Some x \<Rightarrow> x \<noteq> [])"

text \<open>\<^verbatim>\<open>manual_key if manual_key else fallback_keys.get(name)\<close>\<close>

definition key_to_use :: "'w env \<Rightarrow> string option \<Rightarrow> string \<Rightarrow> string option" where
  "key_to_use env manual_key name =
     (if key_truthy manual_key then manual_key
      else case map_of (fallback_keys env) name of None \<Rightarrow> None | Some k \<Rightarrow> k)"

text \<open>
  The loop over \<^verbatim>\<open>functions.items()\<close>; the local dict \<^verbatim>\<open>functions\<close> is
  \<open>hybrid_functions\<close> and the local dict \<^verbatim>\<open>fallback_keys\<close> is \<open>fallback_keys env\<close>. The
  bare \<^verbatim>\<open>except\<close> turns an error of the call into \<^verbatim>\<open>continue\<close>; a falsy result
  (\<^verbatim>\<open>None\<close>, or an empty dict) falls through to the next iteration too.
\<close>

fun hybrid_loop ::
  "'w env \<Rightarrow> string \<Rightarrow> string option \<Rightarrow> (string \<times> 'w adapter) list \<Rightarrow> 'w run_state
     \<Rightarrow> pydict option \<times> 'w run_state" where
  "hybrid_loop env ip manual_key [] s = (None, s)"
| "hybrid_loop env ip manual_key ((name, func) # rest) s =
     (if key_truthy (key_to_use env manual_key name) then
        (case func env ip (key_to_use env manual_key name) s of
           (Inl e, s') \<Rightarrow> hybrid_loop env ip manual_key rest s'
         | (Inr None, s') \<Rightarrow> hybrid_loop env ip manual_key rest s'
         | (Inr (Some result), s') \<Rightarrow>
             if result \<noteq> [] then (Some (dict_set result ''Source'' (PStr name)), s')
             else hybrid_loop env ip manual_key rest s')
      else hybrid_loop env ip manual_key rest s)"

definition get_hybrid_report ::
  "'w env \<Rightarrow> string \<Rightarrow> string option \<Rightarrow> 'w run_state \<Rightarrow> pydict option \<times> 'w run_state" where
  "get_hybrid_report env ip manual_key s = hybrid_loop env ip manual_key hybrid_functions s"

section \<open>The orchestrator (lines 141--182)\<close>

text \<open>
  Line 148: \<^verbatim>\<open>api_key_env_map.get(api_choice, "")\<close>, and the key of direct mode,
  \<^verbatim>\<open>user_api_key if user_api_key else os.getenv(...)\<close>.
\<close>

definition env_key_name :: "string \<Rightarrow> string" where
  "env_key_name choice = (case map_of api_key_env_map choice of None \<Rightarrow> [] | Some v \<Rightarrow> v)"

definition direct_key :: "'w env \<Rightarrow> string option" where
  "direct_key env =
     (if user_api_key env \<noteq> [] then Some (user_api_key env)
      else getenv env (env_key_name (api_choice env)))"

text \<open>
  Lines 145--149: the report of one IP. In hybrid mode the typed key is passed as
  \<^verbatim>\<open>manual_key\<close>; otherwise the key is the typed one or the environment's, and the
  adapter is looked up with \<^verbatim>\<open>api_function_map[api_choice]\<close> and called.
\<close>

definition resolve_report :: "'w env \<Rightarrow> string \<Rightarrow> 'w run_state \<Rightarrow> (exn + pydict option) \<times> 'w run_state" where
  "resolve_report env ip s =
     (if api_choice env = ''Hybrid Fallback'' then
        (case get_hybrid_report env ip (Some (user_api_key env)) s of
           (report, s') \<Rightarrow> (Inr report, s'))
      else
        (let key = direct_key env
         in case map_of api_function_map (api_choice env) of
              None \<Rightarrow> (Inl KeyError, s)
            | Some func \<Rightarrow> func env ip key s))"

text \<open>Lines 161--165: the model's label, or \<^verbatim>\<open>"Error"\<close> when the invocation raises.\<close>

definition classify :: "'w env \<Rightarrow> pydict \<Rightarrow> pydict \<Rightarrow> 'w run_state \<Rightarrow> pydict \<times> 'w run_state" where
  "classify env report features s =
     (case model_predict env features (world s) of
        (out, w') \<Rightarrow>
          (case out of
             Inr risk \<Rightarrow> dict_set report ''AI Risk'' risk
           | Inl e \<Rightarrow> dict_set report ''AI Risk'' (PStr ''Error''),
           emit (Predict features out) (s\<lparr>world := w'\<rparr>)))"

text \<open>
  Lines 168--172: the body of the alert \<^verbatim>\<open>try\<close>; \<open>Some e\<close> is an error raised in it. The
  statements run in the order written: \<^verbatim>\<open>check_alerts\<close>, the condition, and when it is
  true \<^verbatim>\<open>st.success\<close>, \<^verbatim>\<open>send_email_alert\<close> and \<^verbatim>\<open>print\<close>, each of which reads
  \<^verbatim>\<open>report['IP']\<close>; the first error ends the body.
\<close>

definition alert_try :: "'w env \<Rightarrow> pydict \<Rightarrow> 'w run_state \<Rightarrow> exn option \<times> 'w run_state" where
  "alert_try env report s =
     (case effect (check_alerts env report) (CheckAlerts report) s of
        (Some e, s1) \<Rightarrow> (Some e, s1)
      | (None, s1) \<Rightarrow>
          (case should_alert report of
             Inl e \<Rightarrow> (Some e, s1)
           | Inr False \<Rightarrow> (None, s1)
           | Inr True \<Rightarrow>
               (case dict_index report ''IP'' of
                  Inl e \<Rightarrow> (Some e, s1)
                | Inr ipv \<Rightarrow>
                    (case effect (st_success env ipv) (StSuccess ipv) s1 of
                       (Some e, s2) \<Rightarrow> (Some e, s2)
                     | (None, s2) \<Rightarrow>
                         (case effect (send_email_alert env ipv report) (SendEmail ipv report) s2 of
                            (Some e, s3) \<Rightarrow> (Some e, s3)
                          | (None, s3) \<Rightarrow>
                              effect (print env (PrintSent ipv)) (Print (PrintSent ipv)) s3)))))"

text \<open>
  Lines 167--175: the handler catches an error \<open>e\<close> of the body and reports the failure
  with \<^verbatim>\<open>st.error\<close> and \<^verbatim>\<open>print\<close>. The handler stands outside the \<^verbatim>\<open>try\<close> it belongs to:
  an error raised in it, by reading \<^verbatim>\<open>report['IP']\<close> or by one of its two calls, leaves
  the alert step.
\<close>

definition alert_step :: "'w env \<Rightarrow> pydict \<Rightarrow> 'w run_state \<Rightarrow> exn option \<times> 'w run_state" where
  "alert_step env report s =
     (case alert_try env report s of
        (None, s') \<Rightarrow> (None, s')
      | (Some e, s') \<Rightarrow>
          (case dict_index report ''IP'' of
             Inl e' \<Rightarrow> (Some e', s')
           | Inr ipv \<Rightarrow>
               (case effect (st_error env ipv) (StError ipv) s' of
                  (Some e', s'') \<Rightarrow> (Some e', s'')
                | (None, s'') \<Rightarrow>
                    effect (print env (PrintAlertFailed ipv e)) (Print (PrintAlertFailed ipv e)) s'')))"

text \<open>
  Lines 145--178, the body of the outer \<^verbatim>\<open>try\<close> for one IP: \<open>Inl e\<close> is an error that
  reaches the outer handler, \<open>Inr None\<close> the \<^verbatim>\<open>continue\<close> on a falsy report, and
  \<open>Inr (Some r)\<close> the report that \<^verbatim>\<open>results.append\<close> receives.
\<close>

definition ip_body :: "'w env \<Rightarrow> string \<Rightarrow> 'w run_state \<Rightarrow> (exn + pydict option) \<times> 'w run_state" where
  "ip_body env ip s =
     (case resolve_report env ip s of
        (Inl e, s1) \<Rightarrow> (Inl e, s1)
      | (Inr None, s1) \<Rightarrow> (Inr None, s1)
      | (Inr (Some report), s1) \<Rightarrow>
          if report = [] then (Inr None, s1)
          else
            (case classify env report (extract_features report) s1 of
               (report', s2) \<Rightarrow>
                 (case alert_step env report' s2 of
                    (Some e, s3) \<Rightarrow> (Inl e, s3)
                  | (None, s3) \<Rightarrow>
                      (case save_report env report' (world s3) of
                         (r4, w4) \<Rightarrow>
                           (let s4 = emit (SaveReport report' r4) (s3\<lparr>world := w4\<rparr>) in
                            case r4 of
                              Some e \<Rightarrow> (Inl e, s4)
                            | None \<Rightarrow> (Inr (Some report'), s4))))))"

text \<open>
  The \<^verbatim>\<open>for\<close> loop with its accumulator \<^verbatim>\<open>results\<close>. The outer handler prints the
  error and continues with the next IP. Its \<^verbatim>\<open>print\<close> (line 180) stands outside every
  \<^verbatim>\<open>try\<close>: when it raises, the error leaves \<^verbatim>\<open>run_analysis\<close> and the reports collected
  so far are not returned. \<open>Inl e\<close> is a run that raises, \<open>Inr results\<close> one that returns.
\<close>

fun run_loop ::
  "'w env \<Rightarrow> string list \<Rightarrow> pydict list \<Rightarrow> 'w run_state \<Rightarrow> (exn + pydict list) \<times> 'w run_state" where
  "run_loop env [] results s = (Inr results, s)"
| "run_loop env (ip # ips) results s =
     (case ip_body env ip s of
        (Inl e, s') \<Rightarrow>
          (case effect (print env (PrintError ip e)) (Print (PrintError ip e)) s' of
             (Some e', s'') \<Rightarrow> (Inl e', s'')
           | (None, s'') \<Rightarrow> run_loop env ips results s'')
      | (Inr None, s') \<Rightarrow> run_loop env ips results s'
      | (Inr (Some report), s') \<Rightarrow> run_loop env ips (results @ [report]) s')"

definition run_analysis ::
  "'w env \<Rightarrow> string list \<Rightarrow> 'w run_state \<Rightarrow> (exn + pydict list) \<times> 'w run_state" where
  "run_analysis env ip_list s = run_loop env ip_list [] s"

section \<open>Notions used in the statements\<close>

subsection \<open>Features and numeric fields\<close>

text \<open>
  The four feature columns; a numeric value (Python's bool is an int); a report whose
  four numeric fields are each missing, \<^verbatim>\<open>None\<close> or numeric, as the canonical report of
  the spec has them; the integer a numeric field stands for, 0 when it is missing; and
  a value that is a number greater than 0.
\<close>

definition feature_names :: "string list" where
  "feature_names = [''Malicious'', ''Suspicious'', ''Abuse Confidence'', ''Reputation'']"

fun is_numeric :: "pyval \<Rightarrow> bool" where
  "is_numeric (PInt n) = True"
| "is_numeric (PBool b) = True"
| "is_numeric _ = False"

definition canonical_numeric :: "pydict \<Rightarrow> bool" where
  "canonical_numeric r =
     list_all (\<lambda>k. case dict_get r k of None \<Rightarrow> True | Some v \<Rightarrow> v = PNone \<or> is_numeric v)
       feature_names"

definition field_int :: "pydict \<Rightarrow> string \<Rightarrow> int option" where
  "field_int r k =
     (case dict_get r k of
        None \<Rightarrow> Some 0
      | Some (PInt n) \<Rightarrow> Some n
      | Some (PBool b) \<Rightarrow> Some (if b then 1 else 0)
      | Some _ \<Rightarrow> None)"

fun positive :: "pyval \<Rightarrow> bool" where
  "positive (PInt n) = (0 < n)"
| "positive (PBool b) = b"
| "positive _ = False"

subsection \<open>Calls read off the trace\<close>

text \<open>
  The priority order of the hybrid loop. A call is an HTTP exchange: the adapter's name,
  the request, and what came back. \<open>adapter_request\<close> and \<open>adapter_result\<close> name, for
  each provider, the request its adapter sends and the value its adapter returns on an
  exchange. \<open>first_report_wins\<close> reads a sequence of calls the way the spec describes
  the fallback: calls that raise or return nothing are passed over, the first report ends
  the sequence and is the result with its Source set, and without any report the result
  is absent. \<open>has_credential\<close> says that a provider's credential resolves.
\<close>

definition provider_order :: "string list" where
  "provider_order = [''VirusTotal'', ''AbuseIPDB'', ''AlienVault OTX'']"

type_synonym call = "string \<times> request \<times> (exn + response)"

fun http_event :: "call \<Rightarrow> event" where
  "http_event (name, req, out) = HttpGet name req out"

definition adapter_request :: "string \<Rightarrow> string \<Rightarrow> string option \<Rightarrow> request" where
  "adapter_request name ip key =
     (if name = ''VirusTotal'' then vt_request ip key
      else if name = ''AbuseIPDB'' then abuseipdb_request ip key
      else otx_request ip key)"

definition adapter_result :: "string \<Rightarrow> string \<Rightarrow> exn + response \<Rightarrow> exn + pydict option" where
  "adapter_result name ip out =
     (if name = ''VirusTotal'' then vt_result ip out
      else if name = ''AbuseIPDB'' then abuseipdb_result ip out
      else otx_result ip out)"

fun first_report_wins :: "string \<Rightarrow> call list \<Rightarrow> pydict option \<Rightarrow> bool" where
  "first_report_wins ip [] res = (res = None)"
| "first_report_wins ip ((name, req, out) # cs) res =
     (case adapter_result name ip out of
        Inl e \<Rightarrow> first_report_wins ip cs res
      | Inr None \<Rightarrow> first_report_wins ip cs res
      | Inr (Some r) \<Rightarrow> cs = [] \<and> res = Some (dict_set r ''Source'' (PStr name)))"

definition has_credential :: "'w env \<Rightarrow> string option \<Rightarrow> string \<Rightarrow> bool" where
  "has_credential env manual_key name = key_truthy (key_to_use env manual_key name)"

subsection \<open>Positions of a run\<close>

text \<open>
  The state in which the \<open>i\<close>-th IP of the input is processed, and what that position
  contributes to the result. \<open>prepend rs out\<close> is the outcome of a run that had
  collected the reports \<open>rs\<close> and went on to the outcome \<open>out\<close>: the reports of \<open>out\<close>
  follow \<open>rs\<close>, and an error of \<open>out\<close> is the error of the run.
\<close>

definition state_before :: "'w env \<Rightarrow> string list \<Rightarrow> 'w run_state \<Rightarrow> nat \<Rightarrow> 'w run_state" where
  "state_before env ips s i = snd (run_analysis env (take i ips) s)"

definition outcome :: "'w env \<Rightarrow> string list \<Rightarrow> 'w run_state \<Rightarrow> nat \<Rightarrow> pydict option" where
  "outcome env ips s i =
     (case fst (ip_body env (ips ! i) (state_before env ips s i)) of
        Inl e \<Rightarrow> None
      | Inr None \<Rightarrow> None
      | Inr (Some r) \<Rightarrow> Some r)"

definition prepend :: "pydict list \<Rightarrow> (exn + pydict list) \<times> 's \<Rightarrow> (exn + pydict list) \<times> 's" where
  "prepend rs out =
     (case out of
        (Inl e, s) \<Rightarrow> (Inl e, s)
      | (Inr rs', s) \<Rightarrow> (Inr (rs @ rs'), s))"

section \<open>Concrete environments and reports\<close>

text \<open>
  An environment without a world of its own: the HTTP client answers by the request, the
  model and the store by their argument, the alert manager always succeeds, and every
  text is written. The
  instances below fix the answers: a provider that is silent, one that is down, one that
  answers with an empty or a malformed object, and a store that fails for one IP. In
  the last one the standard output is closed: \<^verbatim>\<open>print\<close> raises \<^verbatim>\<open>ValueError\<close>.
\<close>

definition test_env ::
  "(request \<Rightarrow> exn + response) \<Rightarrow> (string \<Rightarrow> string option) \<Rightarrow> (pydict \<Rightarrow> exn + pyval) \<Rightarrow>
   (pydict \<Rightarrow> exn option) \<Rightarrow> string \<Rightarrow> string \<Rightarrow> unit env" where
  "test_env http vars model store choice typed_key =
     \<lparr>requests_get = (\<lambda>req w. (http req, w)),
      getenv = vars,
      model_predict = (\<lambda>features w. (model features, w)),
      check_alerts = (\<lambda>report w. (None, w)),
      send_email_alert = (\<lambda>ipv report w. (None, w)),
      save_report = (\<lambda>report w. (store report, w)),
      st_success = (\<lambda>ipv w. (None, w)),
      st_error = (\<lambda>ipv w. (None, w)),
      print = (\<lambda>msg w. (None, w)),
      api_choice = choice,
      user_api_key = typed_key\<rparr>"

definition s0 :: "unit run_state" where
  "s0 = \<lparr>world = (), trace = []\<rparr>"

definition not_found :: "exn + response" where
  "not_found = Inr \<lparr>status_code = 404, json = Inl (OtherError ''JSONDecodeError'')\<rparr>"

definition ok_json :: "pyval \<Rightarrow> exn + response" where
  "ok_json body = Inr \<lparr>status_code = 200, json = Inr body\<rparr>"

definition abuse_body :: pyval where
  "abuse_body =
     PDict [(''data'', PDict [(''countryCode'', PStr ''US''), (''abuseConfidenceScore'', PInt 40)])]"

definition abuse_report_of :: "string \<Rightarrow> pydict" where
  "abuse_report_of ip =
     [(''IP'', PStr ip), (''Country'', PStr ''US''), (''ISP'', PStr ''N/A''),
      (''Malicious'', PInt 0), (''Suspicious'', PInt 0), (''Abuse Confidence'', PInt 40),
      (''Reputation'', PInt 0), (''Source'', PStr ''AbuseIPDB'')]"

definition labelled_report_of :: "string \<Rightarrow> pydict" where
  "labelled_report_of ip = abuse_report_of ip @ [(''AI Risk'', PStr ''Error'')]"

definition all_keys :: "string \<Rightarrow> string option" where
  "all_keys var = Some ''secret''"

definition no_keys :: "string \<Rightarrow> string option" where
  "no_keys var = None"

definition two_keys :: "string \<Rightarrow> string option" where
  "two_keys var = (if var = ''OTX_API_KEY'' then None else Some ''secret'')"

definition fallback_http :: "request \<Rightarrow> exn + response" where
  "fallback_http req =
     (if map fst (headers req) = [''x-apikey''] then not_found
      else if map fst (headers req) = [''Key'', ''Accept''] then ok_json abuse_body
      else Inl (OtherError ''ConnectionError''))"

definition fallback_env :: "unit env" where
  "fallback_env =
     test_env fallback_http all_keys (\<lambda>f. Inr (PStr ''Low'')) (\<lambda>r. None) ''Hybrid Fallback'' []"

definition flaky_http :: "request \<Rightarrow> exn + response" where
  "flaky_http req =
     (if map fst (headers req) = [''x-apikey''] then Inl (OtherError ''ConnectionError'')
      else not_found)"

definition failing_env :: "unit env" where
  "failing_env =
     test_env flaky_http two_keys (\<lambda>f. Inr (PStr ''Low'')) (\<lambda>r. None) ''Hybrid Fallback'' []"

definition keyless_env :: "unit env" where
  "keyless_env =
     test_env fallback_http no_keys (\<lambda>f. Inr (PStr ''Low'')) (\<lambda>r. None) ''AbuseIPDB'' []"

definition empty_body_env :: "unit env" where
  "empty_body_env =
     test_env (\<lambda>req. ok_json (PDict [])) all_keys (\<lambda>f. Inr (PStr ''Low'')) (\<lambda>r. None)
       ''AbuseIPDB'' []"

definition empty_data_env :: "unit env" where
  "empty_data_env =
     test_env (\<lambda>req. ok_json (PDict [(''data'', PDict [])])) all_keys (\<lambda>f. Inr (PStr ''Low''))
       (\<lambda>r. None) ''AbuseIPDB'' []"

definition null_data_env :: "unit env" where
  "null_data_env =
     test_env (\<lambda>req. ok_json (PDict [(''data'', PNone)])) all_keys (\<lambda>f. Inr (PStr ''Low''))
       (\<lambda>r. None) ''VirusTotal'' []"

definition list_body_env :: "unit env" where
  "list_body_env =
     test_env (\<lambda>req. ok_json (PList [])) all_keys (\<lambda>f. Inr (PStr ''Low''))
       (\<lambda>r. None) ''AlienVault OTX'' []"



definition patchy_http :: "request \<Rightarrow> exn + response" where
  "patchy_http req =
     (if map snd (params req) = [''1.1.1.1'', ''90''] then Inl (OtherError ''ConnectionError'')
      else if map snd (params req) = [''2.2.2.2'', ''90''] then not_found
      else ok_json abuse_body)"

definition patchy_store :: "pydict \<Rightarrow> exn option" where
  "patchy_store r =
     (if dict_get r ''IP'' = Some (PStr ''4.4.4.4'') then Some (OtherError ''OperationalError'')
      else None)"

definition patchy_env :: "unit env" where
  "patchy_env =
     test_env patchy_http all_keys (\<lambda>f. Inl (OtherError ''ValueError'')) patchy_store
       ''AbuseIPDB'' []"

definition closed_stdout_env :: "unit env" where
  "closed_stdout_env = patchy_env\<lparr>print := (\<lambda>msg w. (Some (OtherError ''ValueError''), w))\<rparr>"

definition sample_report :: pydict where
  "sample_report =
     [(''IP'', PStr ''8.8.8.8''), (''Country'', PStr ''US''), (''ASN'', PInt 15169),
      (''Malicious'', PInt 3), (''Suspicious'', PInt 1), (''Abuse Confidence'', PNone),
      (''Source'', PStr ''VirusTotal'')]"

definition odd_report :: pydict where
  "odd_report =
     [(''IP'', PStr ''10.0.0.1''), (''Malicious'', PBool False), (''Suspicious'', PStr []),
      (''Abuse Confidence'', PInt 0), (''Reputation'', PInt (- 3))]"

definition scored_report :: pydict where
  "scored_report =
     [(''IP'', PStr ''8.8.8.8''), (''Malicious'', PInt 3), (''Suspicious'', PInt 1),
      (''Abuse Confidence'', PInt 0), (''Reputation'', PInt 0), (''Source'', PStr ''VirusTotal'')]"

section \<open>Properties\<close>

subsection \<open>Dictionaries and sequencing\<close>

lemma dict_get_default_alt: "dict_get_default d k v = (case dict_get d k of None \<Rightarrow> v | Some x \<Rightarrow> x)"
  by (simp add: dict_get_default_def dict_get_def)

lemma dict_get_dict_set: "dict_get (dict_set d k v) k' = (if k' = k then Some v else dict_get d k')"
  by (induction d) (auto simp: dict_get_def)

lemma dict_get_default_dict_set:
  "k' \<noteq> k \<Longrightarrow> dict_get_default (dict_set d k v) k' dflt = dict_get_default d k' dflt"
  by (simp add: dict_get_default_alt dict_get_dict_set)


lemma ebind_eq_Inr: "ebind m f = Inr y \<longleftrightarrow> (\<exists>x. m = Inr x \<and> f x = Inr y)"
  by (cases m) (simp_all add: ebind_def)

subsection \<open>Feature extraction\<close>

text \<open>
  Claim C4. Feature extraction has no failing branch and always yields the four columns
  Malicious, Suspicious, Abuse Confidence, Reputation in this order. A field that is
  missing or \<^verbatim>\<open>None\<close> becomes 0, an integer field keeps its value, the features of a
  canonical report are all numeric, and a report without any of the four fields gives
  \<open>[0, 0, 0, 0]\<close>.
\<close>

theorem extract_features_total:
  "map fst (extract_features r) = feature_names \<and>
   length (extract_features r) = 4 \<and>
   (\<forall>k \<in> set feature_names.
      dict_get r k = None \<or> dict_get r k = Some PNone \<longrightarrow>
        dict_get (extract_features r) k = Some (PInt 0)) \<and>
   (\<forall>k \<in> set feature_names. \<forall>n.
      dict_get r k = Some (PInt n) \<longrightarrow> dict_get (extract_features r) k = Some (PInt n)) \<and>
   (canonical_numeric r \<longrightarrow> list_all is_numeric (map snd (extract_features r))) \<and>
   ((\<forall>k \<in> set feature_names. dict_get r k = None) \<longrightarrow>
      map snd (extract_features r) = [PInt 0, PInt 0, PInt 0, PInt 0])"
proof -
  have names: "map fst (extract_features r) = feature_names"
    by (simp add: extract_features_def feature_names_def)
  have len: "length (extract_features r) = 4"
    by (simp add: extract_features_def)
  have missing: "\<forall>k \<in> set feature_names.
      dict_get r k = None \<or> dict_get r k = Some PNone \<longrightarrow>
        dict_get (extract_features r) k = Some (PInt 0)"
    by (auto simp: extract_features_def feature_names_def dict_get_default_alt py_or_def dict_get_def)
  have ints: "\<forall>k \<in> set feature_names. \<forall>n.
      dict_get r k = Some (PInt n) \<longrightarrow> dict_get (extract_features r) k = Some (PInt n)"
    by (auto simp: extract_features_def feature_names_def dict_get_default_alt py_or_def dict_get_def)
  have num: "is_numeric (py_or (dict_get_default r k (PInt 0)) (PInt 0))"
    if "case dict_get r k of None \<Rightarrow> True | Some v \<Rightarrow> v = PNone \<or> is_numeric v" for k
    using that by (auto simp: dict_get_default_alt py_or_def split: option.splits)
  have canon: "canonical_numeric r \<longrightarrow> list_all is_numeric (map snd (extract_features r))"
    by (simp add: canonical_numeric_def feature_names_def extract_features_def num)
  have zeros: "(\<forall>k \<in> set feature_names. dict_get r k = None) \<longrightarrow>
      map snd (extract_features r) = [PInt 0, PInt 0, PInt 0, PInt 0]"
    by (simp add: extract_features_def feature_names_def dict_get_default_alt py_or_def)
  from names len missing ints canon zeros show ?thesis by blast
qed

theorem extract_features_total_witness:
  "canonical_numeric sample_report \<and>
   map snd (extract_features sample_report) = [PInt 3, PInt 1, PInt 0, PInt 0] \<and>
   list_all is_numeric (map snd (extract_features sample_report)) \<and>
   map (dict_get [(''IP'', PStr ''8.8.8.8'')]) feature_names = [None, None, None, None] \<and>
   map snd (extract_features [(''IP'', PStr ''8.8.8.8'')]) = [PInt 0, PInt 0, PInt 0, PInt 0]"
proof -
  have c: "canonical_numeric sample_report"
    by (simp add: canonical_numeric_def sample_report_def feature_names_def dict_get_def)
  have m: "\<forall>k \<in> set feature_names. dict_get [(''IP'', PStr ''8.8.8.8'')] k = None"
    by (simp add: feature_names_def dict_get_def)
  have v: "map snd (extract_features sample_report) = [PInt 3, PInt 1, PInt 0, PInt 0]"
    by (simp add: extract_features_def sample_report_def dict_get_default_def py_or_def)
  have n: "map (dict_get [(''IP'', PStr ''8.8.8.8'')]) feature_names = [None, None, None, None]"
    by (simp add: feature_names_def dict_get_def)
  from c m v n extract_features_total [of sample_report]
    extract_features_total [of "[(''IP'', PStr ''8.8.8.8'')]"]
  show ?thesis by blast
qed

text \<open>
  Claim C9. Each feature is \<^verbatim>\<open>report.get(k, 0) or 0\<close>: a missing field and every falsy
  value (\<^verbatim>\<open>None\<close>, 0, \<^verbatim>\<open>False\<close>, the empty string) give 0, and every truthy value, a
  negative reputation included, is passed on unchanged.
\<close>

theorem extract_features_or_zero:
  "map snd (extract_features r) =
     map (\<lambda>k. case dict_get r k of
                 None \<Rightarrow> PInt 0
               | Some v \<Rightarrow> if truthy v then v else PInt 0) feature_names \<and>
   \<not> truthy PNone \<and> \<not> truthy (PInt 0) \<and> \<not> truthy (PBool False) \<and> \<not> truthy (PStr []) \<and>
   (\<forall>n. n \<noteq> 0 \<longrightarrow> truthy (PInt n))"
  by (simp add: extract_features_def feature_names_def dict_get_default_alt py_or_def
      split: option.splits)

theorem extract_features_or_zero_witness:
  "(- 3 :: int) \<noteq> 0 \<and> truthy (PInt (- 3)) \<and>
   map snd (extract_features odd_report) = [PInt 0, PInt 0, PInt 0, PInt (- 3)]"
proof -
  have "map snd (extract_features odd_report) =
     map (\<lambda>k. case dict_get odd_report k of
                 None \<Rightarrow> PInt 0
               | Some v \<Rightarrow> if truthy v then v else PInt 0) feature_names"
    using extract_features_or_zero [of odd_report] by blast
  moreover have "truthy (PInt (- 3))"
    using extract_features_or_zero [of odd_report] by simp
  ultimately show ?thesis
    by (simp add: odd_report_def feature_names_def dict_get_def)
qed

subsection \<open>Adapters\<close>

text \<open>
  A report an adapter returns is never empty, carries the IP it was asked about, and
  has the literal 0 in its Abuse Confidence or in its Malicious field. An adapter makes
  exactly one HTTP exchange, and what it returns is determined by that exchange.
\<close>

lemma vt_result_nonempty: "vt_result ip out = Inr (Some r) \<Longrightarrow> r \<noteq> []"
  by (auto simp: vt_result_def vt_report_def ebind_eq_Inr split: sum.splits if_splits)

lemma abuseipdb_result_nonempty: "abuseipdb_result ip out = Inr (Some r) \<Longrightarrow> r \<noteq> []"
  by (auto simp: abuseipdb_result_def abuseipdb_report_def ebind_eq_Inr split: sum.splits if_splits)

lemma otx_result_nonempty: "otx_result ip out = Inr (Some r) \<Longrightarrow> r \<noteq> []"
  by (auto simp: otx_result_def otx_report_def ebind_eq_Inr split: sum.splits if_splits)

lemma adapter_result_nonempty: "adapter_result name ip out = Inr (Some r) \<Longrightarrow> r \<noteq> []"
  by (auto simp: adapter_result_def vt_result_nonempty abuseipdb_result_nonempty
      otx_result_nonempty split: if_splits)

lemma vt_result_ip: "vt_result ip out = Inr (Some r) \<Longrightarrow> dict_get r ''IP'' = Some (PStr ip)"
  by (auto simp: vt_result_def vt_report_def ebind_eq_Inr dict_get_def split: sum.splits if_splits)

lemma abuseipdb_result_ip:
  "abuseipdb_result ip out = Inr (Some r) \<Longrightarrow> dict_get r ''IP'' = Some (PStr ip)"
  by (auto simp: abuseipdb_result_def abuseipdb_report_def ebind_eq_Inr dict_get_def
      split: sum.splits if_splits)

lemma otx_result_ip: "otx_result ip out = Inr (Some r) \<Longrightarrow> dict_get r ''IP'' = Some (PStr ip)"
  by (auto simp: otx_result_def otx_report_def ebind_eq_Inr dict_get_def split: sum.splits if_splits)

lemma adapter_result_ip:
  "adapter_result name ip out = Inr (Some r) \<Longrightarrow> dict_get r ''IP'' = Some (PStr ip)"
  by (auto simp: adapter_result_def vt_result_ip abuseipdb_result_ip otx_result_ip
      split: if_splits)


lemma adapter_result_literal_zero:
  assumes "adapter_result name ip out = Inr (Some r)"
  shows "dict_get r ''Abuse Confidence'' = Some (PInt 0) \<or> dict_get r ''Malicious'' = Some (PInt 0)"
  using assms
  by (auto simp: adapter_result_def vt_result_def vt_report_def abuseipdb_result_def
      abuseipdb_report_def otx_result_def otx_report_def ebind_eq_Inr dict_get_def
      split: sum.splits if_splits)

lemma trace_http_get:
  "http_get env name req s = (out, s') \<Longrightarrow> trace s' = trace s @ [HttpGet name req out]"
  by (auto simp: http_get_def emit_def split: prod.splits)

lemma adapter_call:
  assumes "(name, func) \<in> set hybrid_functions"
  shows "\<exists>out s'. func env ip key s = (adapter_result name ip out, s') \<and>
           trace s' = trace s @ [HttpGet name (adapter_request name ip key) out]"
proof -
  from assms consider
      (vt) "name = ''VirusTotal''" "func = get_virustotal"
    | (ab) "name = ''AbuseIPDB''" "func = get_abuseipdb"
    | (otx) "name = ''AlienVault OTX''" "func = get_otx"
    by (auto simp: hybrid_functions_def)
  then show ?thesis
  proof cases
    case vt
    obtain out s' where h: "http_get env ''VirusTotal'' (vt_request ip key) s = (out, s')"
      by (cases "http_get env ''VirusTotal'' (vt_request ip key) s")
    with vt trace_http_get [OF h] show ?thesis
      by (simp add: get_virustotal_def adapter_result_def adapter_request_def)
  next
    case ab
    obtain out s' where h: "http_get env ''AbuseIPDB'' (abuseipdb_request ip key) s = (out, s')"
      by (cases "http_get env ''AbuseIPDB'' (abuseipdb_request ip key) s")
    with ab trace_http_get [OF h] show ?thesis
      by (simp add: get_abuseipdb_def adapter_result_def adapter_request_def)
  next
    case otx
    obtain out s' where h: "http_get env ''AlienVault OTX'' (otx_request ip key) s = (out, s')"
      by (cases "http_get env ''AlienVault OTX'' (otx_request ip key) s")
    with otx trace_http_get [OF h] show ?thesis
      by (simp add: get_otx_def adapter_result_def adapter_request_def)
  qed
qed


text \<open>
  On a status-200 response whose body is a JSON object, with an object (or nothing)
  wherever the adapter looks for a nested object, \<^verbatim>\<open>get_virustotal\<close> and \<^verbatim>\<open>get_otx\<close>
  return a report in which every absent field has its default; \<^verbatim>\<open>get_abuseipdb\<close> does
  so when the body has an object under \<^verbatim>\<open>"data"\<close>.
\<close>

lemma get_virustotal_200:
  assumes "requests_get env (vt_request ip key) (world s) = (Inr resp, w')"
    and "status_code resp = 200" and "json resp = Inr body"
  shows "fst (get_virustotal env ip key s) = ebind (vt_report ip body) (\<lambda>r. Inr (Some r))"
  using assms by (simp add: get_virustotal_def http_get_def vt_result_def ebind_def)

lemma get_abuseipdb_200:
  assumes "requests_get env (abuseipdb_request ip key) (world s) = (Inr resp, w')"
    and "status_code resp = 200" and "json resp = Inr body"
  shows "fst (get_abuseipdb env ip key s) = ebind (abuseipdb_report ip body) (\<lambda>r. Inr (Some r))"
  using assms by (simp add: get_abuseipdb_def http_get_def abuseipdb_result_def ebind_def)

lemma get_otx_200:
  assumes "requests_get env (otx_request ip key) (world s) = (Inr resp, w')"
    and "status_code resp = 200" and "json resp = Inr body"
  shows "fst (get_otx env ip key s) = ebind (otx_report ip body) (\<lambda>r. Inr (Some r))"
  using assms by (simp add: get_otx_def http_get_def otx_result_def ebind_def)

lemma get_virustotal_defaults:
  assumes "requests_get env (vt_request ip key) (world s) = (Inr resp, w')"
    and "status_code resp = 200" and "json resp = Inr (PDict b)"
    and "dict_get_default b ''data'' (PDict []) = PDict d"
    and "dict_get_default d ''attributes'' (PDict []) = PDict a"
    and "dict_get_default a ''last_analysis_stats'' (PDict []) = PDict st"
  shows "fst (get_virustotal env ip key s) =
           Inr (Some [(''IP'', PStr ip),
                      (''Country'', dict_get_default a ''country'' (PStr ''N/A'')),
                      (''ASN'', dict_get_default a ''asn'' (PStr ''N/A'')),
                      (''Malicious'', dict_get_default st ''malicious'' (PInt 0)),
                      (''Suspicious'', dict_get_default st ''suspicious'' (PInt 0)),
                      (''Abuse Confidence'', PInt 0),
                      (''Reputation'', PInt 0),
                      (''Source'', PStr ''VirusTotal'')])"
  using assms(4-6) by (simp add: get_virustotal_200 [OF assms(1-3)] vt_report_def ebind_def)

lemma get_abuseipdb_defaults:
  assumes "requests_get env (abuseipdb_request ip key) (world s) = (Inr resp, w')"
    and "status_code resp = 200" and "json resp = Inr (PDict b)"
    and "dict_get b ''data'' = Some (PDict d)"
  shows "fst (get_abuseipdb env ip key s) =
           Inr (Some [(''IP'', PStr ip),
                      (''Country'', dict_get_default d ''countryCode'' (PStr ''N/A'')),
                      (''ISP'', dict_get_default d ''isp'' (PStr ''N/A'')),
                      (''Malicious'', PInt 0),
                      (''Suspicious'', PInt 0),
                      (''Abuse Confidence'', dict_get_default d ''abuseConfidenceScore'' (PInt 0)),
                      (''Reputation'', PInt 0),
                      (''Source'', PStr ''AbuseIPDB'')])"
  using assms(4)
  by (simp add: get_abuseipdb_200 [OF assms(1-3)] abuseipdb_report_def ebind_def dict_index_def
      dict_get_def)

lemma get_otx_defaults:
  assumes "requests_get env (otx_request ip key) (world s) = (Inr resp, w')"
    and "status_code resp = 200" and "json resp = Inr (PDict b)"
  shows "fst (get_otx env ip key s) =
           Inr (Some [(''IP'', PStr ip),
                      (''Country'', dict_get_default b ''country_name'' (PStr ''N/A'')),
                      (''Malicious'', PInt 0),
                      (''Suspicious'', PInt 0),
                      (''Abuse Confidence'', PInt 0),
                      (''Reputation'', dict_get_default b ''reputation'' (PInt 0)),
                      (''Source'', PStr ''AlienVault OTX'')])"
  by (simp add: get_otx_200 [OF assms(1-3)] otx_report_def ebind_def)

text \<open>
  An object without \<^verbatim>\<open>"data"\<close> makes \<^verbatim>\<open>get_abuseipdb\<close> raise KeyError at
  \<^verbatim>\<open>resp.json()["data"]\<close>, where the other two adapters read with
  \<^verbatim>\<open>.get(..., {})\<close> and fall back to the defaults. The statements for claim C8 below
  say nothing about this case.
\<close>

lemma get_abuseipdb_missing_data:
  "fst (get_abuseipdb empty_body_env ''8.8.8.8'' (Some ''secret'') s0) = Inl KeyError"
  by code_simp

text \<open>
  Claim C8 as stated fails on a malformed nested field: on a status-200 response with
  the body \<^verbatim>\<open>{"data": null}\<close>, \<^verbatim>\<open>get_virustotal\<close> and \<^verbatim>\<open>get_abuseipdb\<close> raise
  AttributeError, and on a body that is a list \<^verbatim>\<open>get_otx\<close> does. No adapter checks
  the type of what it reads; the callers catch what an adapter raises.
\<close>

theorem adapters_raise_on_malformed_payload:
  "requests_get null_data_env (vt_request ''8.8.8.8'' (Some ''secret'')) () =
     (Inr \<lparr>status_code = 200, json = Inr (PDict [(''data'', PNone)])\<rparr>, ()) \<and>
   fst (get_virustotal null_data_env ''8.8.8.8'' (Some ''secret'') s0) = Inl AttributeError \<and>
   fst (get_abuseipdb null_data_env ''8.8.8.8'' (Some ''secret'') s0) = Inl AttributeError \<and>
   requests_get list_body_env (otx_request ''8.8.8.8'' (Some ''secret'')) () =
     (Inr \<lparr>status_code = 200, json = Inr (PList [])\<rparr>, ()) \<and>
   fst (get_otx list_body_env ''8.8.8.8'' (Some ''secret'') s0) = Inl AttributeError"
  by code_simp

text \<open>
  Claim C8, amended to well-formed nesting. On a status-200 response whose body is a
  JSON object, \<^verbatim>\<open>get_virustotal\<close> returns a report, without raising, when each of
  \<^verbatim>\<open>data\<close>, \<^verbatim>\<open>attributes\<close> and \<^verbatim>\<open>last_analysis_stats\<close> is an object or absent;
  \<^verbatim>\<open>get_abuseipdb\<close> does when \<^verbatim>\<open>data\<close> is an object; \<^verbatim>\<open>get_otx\<close> always does. In
  the report every field the payload lacks has its default, \<^verbatim>\<open>"N/A"\<close> for strings and
  0 for numbers.
\<close>

theorem adapters_default_absent_fields:
  "(requests_get env (vt_request ip key) (world s) = (Inr resp, w') \<and>
    status_code resp = 200 \<and> json resp = Inr (PDict b) \<and>
    dict_get_default b ''data'' (PDict []) = PDict d \<and>
    dict_get_default d ''attributes'' (PDict []) = PDict a \<and>
    dict_get_default a ''last_analysis_stats'' (PDict []) = PDict st \<longrightarrow>
      fst (get_virustotal env ip key s) =
        Inr (Some [(''IP'', PStr ip),
                   (''Country'', dict_get_default a ''country'' (PStr ''N/A'')),
                   (''ASN'', dict_get_default a ''asn'' (PStr ''N/A'')),
                   (''Malicious'', dict_get_default st ''malicious'' (PInt 0)),
                   (''Suspicious'', dict_get_default st ''suspicious'' (PInt 0)),
                   (''Abuse Confidence'', PInt 0),
                   (''Reputation'', PInt 0),
                   (''Source'', PStr ''VirusTotal'')])) \<and>
   (requests_get env (abuseipdb_request ip key) (world s) = (Inr resp, w') \<and>
    status_code resp = 200 \<and> json resp = Inr (PDict b) \<and>
    dict_get b ''data'' = Some (PDict d) \<longrightarrow>
      fst (get_abuseipdb env ip key s) =
        Inr (Some [(''IP'', PStr ip),
                   (''Country'', dict_get_default d ''countryCode'' (PStr ''N/A'')),
                   (''ISP'', dict_get_default d ''isp'' (PStr ''N/A'')),
                   (''Malicious'', PInt 0),
                   (''Suspicious'', PInt 0),
                   (''Abuse Confidence'', dict_get_default d ''abuseConfidenceScore'' (PInt 0)),
                   (''Reputation'', PInt 0),
                   (''Source'', PStr ''AbuseIPDB'')])) \<and>
   (requests_get env (otx_request ip key) (world s) = (Inr resp, w') \<and>
    status_code resp = 200 \<and> json resp = Inr (PDict b) \<longrightarrow>
      fst (get_otx env ip key s) =
        Inr (Some [(''IP'', PStr ip),
                   (''Country'', dict_get_default b ''country_name'' (PStr ''N/A'')),
                   (''Malicious'', PInt 0),
                   (''Suspicious'', PInt 0),
                   (''Abuse Confidence'', PInt 0),
                   (''Reputation'', dict_get_default b ''reputation'' (PInt 0)),
                   (''Source'', PStr ''AlienVault OTX'')])) \<and>
   (dict_get obj k = None \<longrightarrow> dict_get_default obj k dflt = dflt)"
proof (intro conjI impI)
  assume "requests_get env (vt_request ip key) (world s) = (Inr resp, w') \<and>
    status_code resp = 200 \<and> json resp = Inr (PDict b) \<and>
    dict_get_default b ''data'' (PDict []) = PDict d \<and>
    dict_get_default d ''attributes'' (PDict []) = PDict a \<and>
    dict_get_default a ''last_analysis_stats'' (PDict []) = PDict st"
  then show "fst (get_virustotal env ip key s) =
        Inr (Some [(''IP'', PStr ip),
                   (''Country'', dict_get_default a ''country'' (PStr ''N/A'')),
                   (''ASN'', dict_get_default a ''asn'' (PStr ''N/A'')),
                   (''Malicious'', dict_get_default st ''malicious'' (PInt 0)),
                   (''Suspicious'', dict_get_default st ''suspicious'' (PInt 0)),
                   (''Abuse Confidence'', PInt 0),
                   (''Reputation'', PInt 0),
                   (''Source'', PStr ''VirusTotal'')])"
    using get_virustotal_defaults [of env ip key s resp w' b d a st] by blast
next
  assume "requests_get env (abuseipdb_request ip key) (world s) = (Inr resp, w') \<and>
    status_code resp = 200 \<and> json resp = Inr (PDict b) \<and>
    dict_get b ''data'' = Some (PDict d)"
  then show "fst (get_abuseipdb env ip key s) =
        Inr (Some [(''IP'', PStr ip),
                   (''Country'', dict_get_default d ''countryCode'' (PStr ''N/A'')),
                   (''ISP'', dict_get_default d ''isp'' (PStr ''N/A'')),
                   (''Malicious'', PInt 0),
                   (''Suspicious'', PInt 0),
                   (''Abuse Confidence'', dict_get_default d ''abuseConfidenceScore'' (PInt 0)),
                   (''Reputation'', PInt 0),
                   (''Source'', PStr ''AbuseIPDB'')])"
    using get_abuseipdb_defaults [of env ip key s resp w' b d] by blast
next
  assume "requests_get env (otx_request ip key) (world s) = (Inr resp, w') \<and>
    status_code resp = 200 \<and> json resp = Inr (PDict b)"
  then show "fst (get_otx env ip key s) =
        Inr (Some [(''IP'', PStr ip),
                   (''Country'', dict_get_default b ''country_name'' (PStr ''N/A'')),
                   (''Malicious'', PInt 0),
                   (''Suspicious'', PInt 0),
                   (''Abuse Confidence'', PInt 0),
                   (''Reputation'', dict_get_default b ''reputation'' (PInt 0)),
                   (''Source'', PStr ''AlienVault OTX'')])"
    using get_otx_defaults [of env ip key s resp w' b] by blast
next
  assume "dict_get obj k = None"
  then show "dict_get_default obj k dflt = dflt"
    by (simp add: dict_get_default_alt)
qed

theorem adapters_default_absent_fields_witness:
  "fst (get_virustotal empty_body_env ''8.8.8.8'' (Some ''secret'') s0) =
     Inr (Some [(''IP'', PStr ''8.8.8.8''), (''Country'', PStr ''N/A''), (''ASN'', PStr ''N/A''),
                (''Malicious'', PInt 0), (''Suspicious'', PInt 0), (''Abuse Confidence'', PInt 0),
                (''Reputation'', PInt 0), (''Source'', PStr ''VirusTotal'')]) \<and>
   fst (get_abuseipdb empty_data_env ''8.8.8.8'' (Some ''secret'') s0) =
     Inr (Some [(''IP'', PStr ''8.8.8.8''), (''Country'', PStr ''N/A''), (''ISP'', PStr ''N/A''),
                (''Malicious'', PInt 0), (''Suspicious'', PInt 0), (''Abuse Confidence'', PInt 0),
                (''Reputation'', PInt 0), (''Source'', PStr ''AbuseIPDB'')]) \<and>
   fst (get_otx empty_body_env ''8.8.8.8'' (Some ''secret'') s0) =
     Inr (Some [(''IP'', PStr ''8.8.8.8''), (''Country'', PStr ''N/A''),
                (''Malicious'', PInt 0), (''Suspicious'', PInt 0), (''Abuse Confidence'', PInt 0),
                (''Reputation'', PInt 0), (''Source'', PStr ''AlienVault OTX'')])"
proof -
  let ?ok = "\<lambda>body. \<lparr>status_code = 200, json = Inr body\<rparr>"
  have vt_call: "requests_get empty_body_env (vt_request ''8.8.8.8'' (Some ''secret'')) (world s0) =
      (Inr (?ok (PDict [])), ())"
    by code_simp
  have ab_call: "requests_get empty_data_env (abuseipdb_request ''8.8.8.8'' (Some ''secret''))
      (world s0) = (Inr (?ok (PDict [(''data'', PDict [])])), ())"
    by code_simp
  have otx_call: "requests_get empty_body_env (otx_request ''8.8.8.8'' (Some ''secret'')) (world s0) =
      (Inr (?ok (PDict [])), ())"
    by code_simp
  have vt: "fst (get_virustotal empty_body_env ''8.8.8.8'' (Some ''secret'') s0) =
     Inr (Some [(''IP'', PStr ''8.8.8.8''), (''Country'', PStr ''N/A''), (''ASN'', PStr ''N/A''),
                (''Malicious'', PInt 0), (''Suspicious'', PInt 0), (''Abuse Confidence'', PInt 0),
                (''Reputation'', PInt 0), (''Source'', PStr ''VirusTotal'')])"
    using vt_call adapters_default_absent_fields [where env = empty_body_env and ip = "''8.8.8.8''"
        and key = "Some ''secret''" and s = s0 and resp = "?ok (PDict [])" and w' = "()"
        and b = "[]" and d = "[]" and a = "[]" and st = "[]" and obj = "[]" and k = "[]"
        and dflt = PNone]
    by (simp add: dict_get_default_def)
  have ab: "fst (get_abuseipdb empty_data_env ''8.8.8.8'' (Some ''secret'') s0) =
     Inr (Some [(''IP'', PStr ''8.8.8.8''), (''Country'', PStr ''N/A''), (''ISP'', PStr ''N/A''),
                (''Malicious'', PInt 0), (''Suspicious'', PInt 0), (''Abuse Confidence'', PInt 0),
                (''Reputation'', PInt 0), (''Source'', PStr ''AbuseIPDB'')])"
    using ab_call adapters_default_absent_fields [where env = empty_data_env and ip = "''8.8.8.8''"
        and key = "Some ''secret''" and s = s0 and resp = "?ok (PDict [(''data'', PDict [])])"
        and w' = "()" and b = "[(''data'', PDict [])]" and d = "[]" and a = "[]" and st = "[]"
        and obj = "[]" and k = "[]" and dflt = PNone]
    by (simp add: dict_get_default_def dict_get_def)
  have otx: "fst (get_otx empty_body_env ''8.8.8.8'' (Some ''secret'') s0) =
     Inr (Some [(''IP'', PStr ''8.8.8.8''), (''Country'', PStr ''N/A''),
                (''Malicious'', PInt 0), (''Suspicious'', PInt 0), (''Abuse Confidence'', PInt 0),
                (''Reputation'', PInt 0), (''Source'', PStr ''AlienVault OTX'')])"
    using otx_call adapters_default_absent_fields [where env = empty_body_env and ip = "''8.8.8.8''"
        and key = "Some ''secret''" and s = s0 and resp = "?ok (PDict [])" and w' = "()"
        and b = "[]" and d = "[]" and a = "[]" and st = "[]" and obj = "[]" and k = "[]"
        and dflt = PNone]
    by (simp add: dict_get_default_def)
  from vt ab otx show ?thesis by blast
qed

subsection \<open>The hybrid fallback\<close>

lemma map_fst_hybrid_functions: "map fst hybrid_functions = provider_order"
  by (simp add: hybrid_functions_def provider_order_def)

lemma api_function_map_eq: "api_function_map = hybrid_functions"
  by (simp add: api_function_map_def hybrid_functions_def)

lemma fallback_keys_lookup:
  "name \<in> set provider_order \<Longrightarrow>
     map_of (fallback_keys env) name = Some (getenv env (env_key_name name))"
  by (auto simp: provider_order_def fallback_keys_def env_key_name_def api_key_env_map_def)

lemma map_of_hybrid_functions:
  "name \<in> set provider_order \<Longrightarrow>
     \<exists>func. map_of hybrid_functions name = Some func \<and> (name, func) \<in> set hybrid_functions"
  by (auto simp: provider_order_def hybrid_functions_def)

lemma prefix_filter_set: "prefix xs (filter P ys) \<Longrightarrow> x \<in> set xs \<Longrightarrow> P x"
  by (auto simp: prefix_def dest!: arg_cong [where f = set])

lemma prefix_take: "prefix xs ys \<Longrightarrow> xs = take (length xs) ys"
  by (auto simp: prefix_def)

lemma prefix_same_length: "prefix xs ys \<Longrightarrow> length xs = length ys \<Longrightarrow> xs = ys"
  by (auto simp: prefix_def)

text \<open>
  The loop over any part of the provider table: its calls, in order, are an initial
  segment of the providers with a credential, and the result is the first report.
\<close>

lemma hybrid_loop_calls:
  assumes "set items \<subseteq> set hybrid_functions"
    and "hybrid_loop env ip mk items s = (res, s')"
  shows "\<exists>calls.
           trace s' = trace s @ map http_event calls \<and>
           first_report_wins ip calls res \<and>
           prefix (map fst calls) (filter (has_credential env mk) (map fst items)) \<and>
           (res = None \<longrightarrow> map fst calls = filter (has_credential env mk) (map fst items)) \<and>
           (\<forall>c \<in> set calls. fst (snd c) = adapter_request (fst c) ip (key_to_use env mk (fst c)))"
  using assms
proof (induction items arbitrary: s)
  case Nil
  then have "res = None" "s' = s" by simp_all
  then show ?case by (intro exI [of _ "[]"]) simp
next
  case (Cons item rest)
  obtain name func where item: "item = (name, func)" by (cases item)
  from Cons.prems(1) item have mem: "(name, func) \<in> set hybrid_functions"
    and sub: "set rest \<subseteq> set hybrid_functions" by auto
  let ?key = "key_to_use env mk name"
  show ?case
  proof (cases "has_credential env mk name")
    case False
    with Cons.prems(2) item have "hybrid_loop env ip mk rest s = (res, s')"
      by (simp add: has_credential_def)
    from Cons.IH [OF sub this] obtain calls where
      "trace s' = trace s @ map http_event calls"
      "first_report_wins ip calls res"
      "prefix (map fst calls) (filter (has_credential env mk) (map fst rest))"
      "res = None \<longrightarrow> map fst calls = filter (has_credential env mk) (map fst rest)"
      "\<forall>c \<in> set calls. fst (snd c) = adapter_request (fst c) ip (key_to_use env mk (fst c))"
      by blast
    with False item show ?thesis by (intro exI [of _ calls]) simp
  next
    case True
    from adapter_call [OF mem, of env ip ?key s] obtain out s1 where
      call: "func env ip ?key s = (adapter_result name ip out, s1)"
      and tr1: "trace s1 = trace s @ [HttpGet name (adapter_request name ip ?key) out]"
      by blast
    let ?c = "(name, adapter_request name ip ?key, out)"
    show ?thesis
    proof (cases "\<exists>r. adapter_result name ip out = Inr (Some r)")
      case True
      then obtain r where r: "adapter_result name ip out = Inr (Some r)" by blast
      then have "r \<noteq> []" by (rule adapter_result_nonempty)
      with Cons.prems(2) item \<open>has_credential env mk name\<close> call r
      have "res = Some (dict_set r ''Source'' (PStr name))" "s' = s1"
        by (simp_all add: has_credential_def)
      with tr1 r \<open>has_credential env mk name\<close> item show ?thesis
        by (intro exI [of _ "[?c]"]) simp
    next
      case False
      with Cons.prems(2) item \<open>has_credential env mk name\<close> call
      have "hybrid_loop env ip mk rest s1 = (res, s')"
        by (auto simp: has_credential_def split: sum.splits option.splits)
      from Cons.IH [OF sub this] obtain calls where
        "trace s' = trace s1 @ map http_event calls"
        "first_report_wins ip calls res"
        "prefix (map fst calls) (filter (has_credential env mk) (map fst rest))"
        "res = None \<longrightarrow> map fst calls = filter (has_credential env mk) (map fst rest)"
        "\<forall>c \<in> set calls. fst (snd c) = adapter_request (fst c) ip (key_to_use env mk (fst c))"
        by blast
      with False tr1 \<open>has_credential env mk name\<close> item show ?thesis
        by (intro exI [of _ "?c # calls"]) (auto split: sum.splits option.splits)
    qed
  qed
qed

lemma hybrid_loop_no_credential:
  "\<forall>name \<in> set (map fst items). \<not> has_credential env mk name \<Longrightarrow>
     hybrid_loop env ip mk items s = (None, s)"
  by (induction items) (auto simp: has_credential_def)

lemma first_report_wins_Some:
  "first_report_wins ip calls (Some r) \<Longrightarrow>
     calls \<noteq> [] \<and>
     (\<exists>r0. adapter_result (fst (last calls)) ip (snd (snd (last calls))) = Inr (Some r0) \<and>
           r = dict_set r0 ''Source'' (PStr (fst (last calls))))"
  by (induction ip calls "Some r" rule: first_report_wins.induct)
     (auto split: sum.splits option.splits)

lemma first_report_wins_butlast:
  "first_report_wins ip calls res \<Longrightarrow> c \<in> set (butlast calls) \<Longrightarrow>
     adapter_result (fst c) ip (snd (snd c)) \<noteq> Inr (Some r0)"
  by (induction ip calls res rule: first_report_wins.induct)
     (auto split: sum.splits option.splits if_splits)

lemma first_report_wins_None:
  "first_report_wins ip calls None \<Longrightarrow> c \<in> set calls \<Longrightarrow>
     adapter_result (fst c) ip (snd (snd c)) \<noteq> Inr (Some r0)"
  by (induction ip calls "None :: pydict option" rule: first_report_wins.induct)
     (auto split: sum.splits option.splits)

lemma first_report_wins_no_report:
  "first_report_wins ip calls res \<Longrightarrow>
     \<forall>c \<in> set calls. \<forall>r. adapter_result (fst c) ip (snd (snd c)) \<noteq> Inr (Some r) \<Longrightarrow>
     res = None"
  by (induction ip calls res rule: first_report_wins.induct)
     (auto split: sum.splits option.splits)

text \<open>
  Claim C1. The HTTP exchanges of one hybrid lookup, read off the trace, are exactly
  these: the providers called are an initial segment of VirusTotal, AbuseIPDB,
  AlienVault OTX with the providers without a credential left out, so the first provider
  with a credential is called first and none is passed over or called twice; each call
  carries the request of that provider's adapter with the resolved credential. Every
  exchange before the last one gave no report, so no provider is called after one that
  returned a report. The lookup returns absent only when every provider with a
  credential was called and none gave a report; a returned report is the report of the
  last exchange with its Source set to that provider's name.
\<close>

theorem hybrid_priority_order:
  assumes "get_hybrid_report env ip mk s = (res, s')"
  shows "\<exists>calls.
           trace s' = trace s @ map http_event calls \<and>
           prefix (map fst calls) (filter (has_credential env mk) provider_order) \<and>
           subseq (map fst calls) provider_order \<and>
           (\<forall>c \<in> set calls. fst (snd c) = adapter_request (fst c) ip (key_to_use env mk (fst c))) \<and>
           first_report_wins ip calls res \<and>
           (\<forall>c \<in> set (butlast calls). \<forall>r0.
              adapter_result (fst c) ip (snd (snd c)) \<noteq> Inr (Some r0)) \<and>
           (res = None \<longrightarrow>
              map fst calls = filter (has_credential env mk) provider_order \<and>
              (\<forall>c \<in> set calls. \<forall>r0. adapter_result (fst c) ip (snd (snd c)) \<noteq> Inr (Some r0))) \<and>
           (\<forall>r. res = Some r \<longrightarrow>
              calls \<noteq> [] \<and>
              dict_get r ''Source'' = Some (PStr (fst (last calls))) \<and>
              (\<exists>r0. adapter_result (fst (last calls)) ip (snd (snd (last calls))) = Inr (Some r0) \<and>
                    r = dict_set r0 ''Source'' (PStr (fst (last calls)))))"
proof -
  from assms have "hybrid_loop env ip mk hybrid_functions s = (res, s')"
    by (simp add: get_hybrid_report_def)
  from hybrid_loop_calls [OF subset_refl this, unfolded map_fst_hybrid_functions]
  obtain calls where
    tr: "trace s' = trace s @ map http_event calls"
    and frw: "first_report_wins ip calls res"
    and pre: "prefix (map fst calls) (filter (has_credential env mk) provider_order)"
    and all: "res = None \<longrightarrow> map fst calls = filter (has_credential env mk) provider_order"
    and reqs: "\<forall>c \<in> set calls. fst (snd c) = adapter_request (fst c) ip (key_to_use env mk (fst c))"
    by blast
  from pre have "subseq (map fst calls) (filter (has_credential env mk) provider_order)"
    by (simp add: prefix_imp_subseq)
  then have ord: "subseq (map fst calls) provider_order"
    by (rule subseq_order.trans) simp
  have before: "\<forall>c \<in> set (butlast calls). \<forall>r0.
      adapter_result (fst c) ip (snd (snd c)) \<noteq> Inr (Some r0)"
    using first_report_wins_butlast [OF frw] by blast
  have absent: "res = None \<longrightarrow>
      map fst calls = filter (has_credential env mk) provider_order \<and>
      (\<forall>c \<in> set calls. \<forall>r0. adapter_result (fst c) ip (snd (snd c)) \<noteq> Inr (Some r0))"
  proof
    assume none: "res = None"
    with frw have "first_report_wins ip calls None" by simp
    from first_report_wins_None [OF this] all none
    show "map fst calls = filter (has_credential env mk) provider_order \<and>
      (\<forall>c \<in> set calls. \<forall>r0. adapter_result (fst c) ip (snd (snd c)) \<noteq> Inr (Some r0))"
      by blast
  qed
  have stamped: "\<forall>r. res = Some r \<longrightarrow>
      calls \<noteq> [] \<and>
      dict_get r ''Source'' = Some (PStr (fst (last calls))) \<and>
      (\<exists>r0. adapter_result (fst (last calls)) ip (snd (snd (last calls))) = Inr (Some r0) \<and>
            r = dict_set r0 ''Source'' (PStr (fst (last calls))))"
  proof (intro allI impI)
    fix r assume "res = Some r"
    with frw have "first_report_wins ip calls (Some r)" by simp
    from first_report_wins_Some [OF this] obtain r0 where
      "calls \<noteq> []"
      "adapter_result (fst (last calls)) ip (snd (snd (last calls))) = Inr (Some r0)"
      "r = dict_set r0 ''Source'' (PStr (fst (last calls)))"
      by blast
    then show "calls \<noteq> [] \<and>
      dict_get r ''Source'' = Some (PStr (fst (last calls))) \<and>
      (\<exists>r0. adapter_result (fst (last calls)) ip (snd (snd (last calls))) = Inr (Some r0) \<and>
            r = dict_set r0 ''Source'' (PStr (fst (last calls))))"
      by (simp add: dict_get_dict_set)
  qed
  from tr pre ord reqs frw before absent stamped show ?thesis by blast
qed

theorem hybrid_priority_order_witness:
  "filter (has_credential fallback_env (Some [])) provider_order =
     [''VirusTotal'', ''AbuseIPDB'', ''AlienVault OTX''] \<and>
   fst (get_hybrid_report fallback_env ''8.8.8.8'' (Some []) s0) = Some (abuse_report_of ''8.8.8.8'') \<and>
   trace (snd (get_hybrid_report fallback_env ''8.8.8.8'' (Some []) s0)) =
     [HttpGet ''VirusTotal'' (vt_request ''8.8.8.8'' (Some ''secret'')) not_found,
      HttpGet ''AbuseIPDB'' (abuseipdb_request ''8.8.8.8'' (Some ''secret'')) (ok_json abuse_body)] \<and>
   (\<exists>calls. trace (snd (get_hybrid_report fallback_env ''8.8.8.8'' (Some []) s0)) =
              map http_event calls \<and>
            map fst calls = [''VirusTotal'', ''AbuseIPDB''] \<and>
            first_report_wins ''8.8.8.8'' calls (Some (abuse_report_of ''8.8.8.8'')) \<and>
            fst (last calls) = ''AbuseIPDB'')"
proof -
  let ?h = "get_hybrid_report fallback_env ''8.8.8.8'' (Some []) s0"
  have creds: "filter (has_credential fallback_env (Some [])) provider_order =
      [''VirusTotal'', ''AbuseIPDB'', ''AlienVault OTX'']"
    by code_simp
  have res: "fst ?h = Some (abuse_report_of ''8.8.8.8'')" by code_simp
  then have run: "?h = (Some (abuse_report_of ''8.8.8.8''), snd ?h)" by (simp add: prod_eq_iff)
  have tr: "trace (snd ?h) =
     [HttpGet ''VirusTotal'' (vt_request ''8.8.8.8'' (Some ''secret'')) not_found,
      HttpGet ''AbuseIPDB'' (abuseipdb_request ''8.8.8.8'' (Some ''secret'')) (ok_json abuse_body)]"
    by code_simp
  have src: "dict_get (abuse_report_of ''8.8.8.8'') ''Source'' = Some (PStr ''AbuseIPDB'')" by code_simp
  from hybrid_priority_order [OF run] obtain calls where
    c1: "trace (snd ?h) = trace s0 @ map http_event calls"
    and c2: "prefix (map fst calls) (filter (has_credential fallback_env (Some [])) provider_order)"
    and c3: "first_report_wins ''8.8.8.8'' calls (Some (abuse_report_of ''8.8.8.8''))"
    and c4: "dict_get (abuse_report_of ''8.8.8.8'') ''Source'' = Some (PStr (fst (last calls)))"
    by blast
  from c1 have c1': "trace (snd ?h) = map http_event calls" by (simp add: s0_def)
  from tr have "length (trace (snd ?h)) = 2" by simp
  with c1' have len: "length calls = 2" by simp
  note prefix_take [OF c2, unfolded length_map len creds]
  then have names: "map fst calls = [''VirusTotal'', ''AbuseIPDB'']"
    by (simp add: numeral_2_eq_2)
  from c4 src have lastc: "fst (last calls) = ''AbuseIPDB''" by simp
  show ?thesis
    by (intro conjI exI [of _ calls]) (fact creds res tr c1' names c3 lastc)+
qed

text \<open>
  Claim C2. A hybrid lookup has no error result. The providers called are an initial
  segment of the providers whose credential resolves, so a provider without one is never
  called. When every call made raised or returned nothing, every provider with a
  credential was called, in order, and the result is absent. When no provider has a
  credential the result is absent and the state is unchanged: no call was made.
\<close>

theorem hybrid_swallows_and_skips:
  assumes "get_hybrid_report env ip mk s = (res, s')"
  shows "\<exists>calls.
           trace s' = trace s @ map http_event calls \<and>
           prefix (map fst calls) (filter (has_credential env mk) provider_order) \<and>
           (\<forall>name. \<not> has_credential env mk name \<longrightarrow> name \<notin> set (map fst calls)) \<and>
           ((\<forall>c \<in> set calls. \<forall>r. adapter_result (fst c) ip (snd (snd c)) \<noteq> Inr (Some r)) \<longrightarrow>
              res = None \<and> map fst calls = filter (has_credential env mk) provider_order) \<and>
           ((\<forall>name \<in> set provider_order. \<not> has_credential env mk name) \<longrightarrow>
              res = None \<and> s' = s)"
proof -
  from assms have loop: "hybrid_loop env ip mk hybrid_functions s = (res, s')"
    by (simp add: get_hybrid_report_def)
  from hybrid_loop_calls [OF subset_refl this, unfolded map_fst_hybrid_functions]
  obtain calls where
    tr: "trace s' = trace s @ map http_event calls"
    and frw: "first_report_wins ip calls res"
    and pre: "prefix (map fst calls) (filter (has_credential env mk) provider_order)"
    and all: "res = None \<longrightarrow> map fst calls = filter (has_credential env mk) provider_order"
    by blast
  have skipped: "\<forall>name. \<not> has_credential env mk name \<longrightarrow> name \<notin> set (map fst calls)"
    using prefix_filter_set [OF pre] by blast
  have failed: "(\<forall>c \<in> set calls. \<forall>r. adapter_result (fst c) ip (snd (snd c)) \<noteq> Inr (Some r)) \<longrightarrow>
      res = None \<and> map fst calls = filter (has_credential env mk) provider_order"
    using first_report_wins_no_report [OF frw] all by blast
  have none: "(\<forall>name \<in> set provider_order. \<not> has_credential env mk name) \<longrightarrow>
      res = None \<and> s' = s"
  proof
    assume "\<forall>name \<in> set provider_order. \<not> has_credential env mk name"
    then have "hybrid_loop env ip mk hybrid_functions s = (None, s)"
      by (intro hybrid_loop_no_credential) (simp add: map_fst_hybrid_functions)
    with loop show "res = None \<and> s' = s" by simp
  qed
  from tr pre skipped failed none show ?thesis by blast
qed

theorem hybrid_swallows_and_skips_witness:
  "get_hybrid_report keyless_env ''8.8.8.8'' (Some []) s0 = (None, s0) \<and>
   fst (get_hybrid_report failing_env ''8.8.8.8'' (Some []) s0) = None \<and>
   (\<exists>calls. trace (snd (get_hybrid_report failing_env ''8.8.8.8'' (Some []) s0)) =
              map http_event calls \<and>
            map fst calls = [''VirusTotal'', ''AbuseIPDB''])"
proof -
  let ?k = "get_hybrid_report keyless_env ''8.8.8.8'' (Some []) s0"
  let ?f = "get_hybrid_report failing_env ''8.8.8.8'' (Some []) s0"
  have nokey: "list_all (\<lambda>name. \<not> has_credential keyless_env (Some []) name) provider_order"
    by code_simp
  have creds: "filter (has_credential failing_env (Some [])) provider_order =
      [''VirusTotal'', ''AbuseIPDB'']"
    by code_simp
  have res: "fst ?f = None" by code_simp
  from hybrid_swallows_and_skips [of keyless_env "''8.8.8.8''" "Some []" s0 "fst ?k" "snd ?k"]
    nokey
  have "fst ?k = None \<and> snd ?k = s0" by (auto simp: list_all_iff)
  then have k: "?k = (None, s0)" by (simp add: prod_eq_iff)
  from hybrid_swallows_and_skips [of failing_env "''8.8.8.8''" "Some []" s0 "fst ?f" "snd ?f"]
  obtain calls where
    tr: "trace (snd ?f) = trace s0 @ map http_event calls"
    and "(\<forall>c \<in> set calls. \<forall>r. adapter_result (fst c) ''8.8.8.8'' (snd (snd c)) \<noteq> Inr (Some r)) \<longrightarrow>
           fst ?f = None \<and> map fst calls = filter (has_credential failing_env (Some [])) provider_order"
    and pre: "prefix (map fst calls) (filter (has_credential failing_env (Some [])) provider_order)"
    by auto
  have len: "length (trace (snd ?f)) = 2" by code_simp
  with tr have "length (map fst calls) = 2" by (simp add: s0_def)
  with pre creds have "map fst calls = [''VirusTotal'', ''AbuseIPDB'']"
    by (intro prefix_same_length) simp_all
  with tr k res show ?thesis by (auto simp: s0_def)
qed

text \<open>
  Claim C10. In direct mode, with no key typed and the provider's environment variable
  unset, the adapter is called with \<^verbatim>\<open>None\<close> as its key and makes exactly one HTTP
  request, which carries that key. A hybrid lookup under the same credentials makes no
  call to that provider.
\<close>

theorem direct_mode_calls_without_credential:
  fixes env :: "'w env"
  assumes choice: "api_choice env \<in> set provider_order"
    and typed: "user_api_key env = []"
    and unset: "getenv env (env_key_name (api_choice env)) = None"
  shows "(\<exists>out s'.
            resolve_report env ip s = (adapter_result (api_choice env) ip out, s') \<and>
            trace s' =
              trace s @ [HttpGet (api_choice env) (adapter_request (api_choice env) ip None) out]) \<and>
         (\<exists>calls.
            trace (snd (get_hybrid_report env ip (Some (user_api_key env)) s)) =
              trace s @ map http_event calls \<and>
            api_choice env \<notin> set (map fst calls))"
proof -
  from choice have not_hybrid: "api_choice env \<noteq> ''Hybrid Fallback''"
    by (auto simp: provider_order_def)
  from typed unset have key: "direct_key env = None"
    by (simp add: direct_key_def)
  from map_of_hybrid_functions [OF choice] obtain func :: "'w adapter" where
    func: "map_of api_function_map (api_choice env) = Some func"
    and mem: "(api_choice env, func) \<in> set hybrid_functions"
    unfolding api_function_map_eq by blast
  from not_hybrid key func have "resolve_report env ip s = func env ip None s"
    by (simp add: resolve_report_def)
  with adapter_call [OF mem, of env ip None s] have direct:
    "\<exists>out s'.
       resolve_report env ip s = (adapter_result (api_choice env) ip out, s') \<and>
       trace s' =
         trace s @ [HttpGet (api_choice env) (adapter_request (api_choice env) ip None) out]"
    by simp
  let ?h = "get_hybrid_report env ip (Some (user_api_key env)) s"
  have "hybrid_loop env ip (Some (user_api_key env)) hybrid_functions s = (fst ?h, snd ?h)"
    by (simp add: get_hybrid_report_def)
  from hybrid_loop_calls [OF subset_refl this, unfolded map_fst_hybrid_functions]
  obtain calls where
    tr: "trace (snd ?h) = trace s @ map http_event calls"
    and pre: "prefix (map fst calls)
        (filter (has_credential env (Some (user_api_key env))) provider_order)"
    by blast
  from typed unset fallback_keys_lookup [OF choice, of env]
  have "\<not> has_credential env (Some (user_api_key env)) (api_choice env)"
    by (simp add: has_credential_def key_to_use_def key_truthy_def)
  with prefix_filter_set [OF pre] have "api_choice env \<notin> set (map fst calls)"
    by blast
  with tr direct show ?thesis by blast
qed

theorem direct_mode_calls_without_credential_witness:
  "trace (snd (resolve_report keyless_env ''8.8.8.8'' s0)) =
     [HttpGet ''AbuseIPDB'' (abuseipdb_request ''8.8.8.8'' None) (ok_json abuse_body)] \<and>
   (\<exists>out. trace (snd (resolve_report keyless_env ''8.8.8.8'' s0)) =
      [HttpGet ''AbuseIPDB'' (adapter_request ''AbuseIPDB'' ''8.8.8.8'' None) out]) \<and>
   trace (snd (get_hybrid_report keyless_env ''8.8.8.8'' (Some []) s0)) = []"
proof -
  have choice: "api_choice keyless_env \<in> set provider_order" by code_simp
  have typed: "user_api_key keyless_env = []" by code_simp
  have unset: "getenv keyless_env (env_key_name (api_choice keyless_env)) = None" by code_simp
  have name: "api_choice keyless_env = ''AbuseIPDB''" by code_simp
  have direct: "trace (snd (resolve_report keyless_env ''8.8.8.8'' s0)) =
     [HttpGet ''AbuseIPDB'' (abuseipdb_request ''8.8.8.8'' None) (ok_json abuse_body)]"
    by code_simp
  have hybrid: "trace (snd (get_hybrid_report keyless_env ''8.8.8.8'' (Some []) s0)) = []"
    by code_simp
  from direct_mode_calls_without_credential [OF choice typed unset, of "''8.8.8.8''" s0]
  have "\<exists>out. trace (snd (resolve_report keyless_env ''8.8.8.8'' s0)) =
      [HttpGet ''AbuseIPDB'' (adapter_request ''AbuseIPDB'' ''8.8.8.8'' None) out]"
    unfolding name by (auto simp: s0_def)
  with direct hybrid show ?thesis by blast
qed

subsection \<open>One IP\<close>

text \<open>
  What a lookup returns is some adapter's report, possibly with its Source set again.
\<close>

lemma resolve_report_origin:
  fixes env :: "'w env"
  assumes "resolve_report env ip s = (Inr (Some r), s1)"
  shows "\<exists>name out r0. adapter_result name ip out = Inr (Some r0) \<and>
           (r = r0 \<or> r = dict_set r0 ''Source'' (PStr name))"
proof (cases "api_choice env = ''Hybrid Fallback''")
  case True
  with assms obtain s' where
    "hybrid_loop env ip (Some (user_api_key env)) hybrid_functions s = (Some r, s')"
    by (auto simp: resolve_report_def get_hybrid_report_def split: prod.splits)
  from hybrid_loop_calls [OF subset_refl this] obtain calls where
    "first_report_wins ip calls (Some r)" by blast
  from first_report_wins_Some [OF this] show ?thesis by blast
next
  case False
  with assms obtain func :: "'w adapter" where
    func: "map_of api_function_map (api_choice env) = Some func"
    and call: "func env ip (direct_key env) s = (Inr (Some r), s1)"
    by (auto simp: resolve_report_def split: option.splits)
  from func have "(api_choice env, func) \<in> set hybrid_functions"
    unfolding api_function_map_eq by (rule map_of_SomeD)
  from adapter_call [OF this, of env ip "direct_key env" s] call
  obtain out where "adapter_result (api_choice env) ip out = Inr (Some r)" by auto
  then show ?thesis by blast
qed

lemma resolve_report_ip:
  assumes "resolve_report env ip s = (Inr (Some r), s1)"
  shows "dict_get r ''IP'' = Some (PStr ip)"
proof -
  from resolve_report_origin [OF assms] obtain name out r0 where
    "adapter_result name ip out = Inr (Some r0)"
    "r = r0 \<or> r = dict_set r0 ''Source'' (PStr name)"
    by blast
  then show ?thesis
    using adapter_result_ip [of name ip out r0] by (auto simp: dict_get_dict_set)
qed


text \<open>A call made for its effect: its outcome, and the one event it adds.\<close>

lemma effect_eq:
  "call (world s) = (r, w') \<Longrightarrow> effect call ev s = (r, emit (ev r) (s\<lparr>world := w'\<rparr>))"
  by (simp add: effect_def)

lemma fst_effect: "fst (effect call ev s) = fst (call (world s))"
  by (simp add: effect_def split: prod.splits)







lemma classify_keeps:
  "k \<noteq> ''AI Risk'' \<Longrightarrow> dict_get (fst (classify env r f s)) k = dict_get r k"
  by (auto simp: classify_def dict_get_dict_set split: prod.splits sum.splits)

lemma ip_body_ip:
  assumes "ip_body env ip s = (Inr (Some r), s')"
  shows "dict_get r ''IP'' = Some (PStr ip)"
proof -
  from assms obtain report s1 where
    res: "resolve_report env ip s = (Inr (Some report), s1)"
    and r: "r = fst (classify env report (extract_features report) s1)"
    by (auto simp: ip_body_def Let_def split: prod.splits sum.splits option.splits if_splits)
  from resolve_report_ip [OF res] r show ?thesis by (simp add: classify_keeps)
qed

lemma ip_body_absent:
  assumes "fst (resolve_report env ip s) = Inr None"
  shows "ip_body env ip s = (Inr None, snd (resolve_report env ip s))"
  using assms by (cases "resolve_report env ip s") (simp add: ip_body_def)



lemma should_alert_label: "should_alert (dict_set r ''AI Risk'' label) = should_alert r"
proof -
  have abuse: "dict_get_default (dict_set r ''AI Risk'' label) ''Abuse Confidence'' (PInt 0) =
      dict_get_default r ''Abuse Confidence'' (PInt 0)"
    by (simp add: dict_get_default_dict_set)
  have malicious: "dict_get_default (dict_set r ''AI Risk'' label) ''Malicious'' (PInt 0) =
      dict_get_default r ''Malicious'' (PInt 0)"
    by (simp add: dict_get_default_dict_set)
  show ?thesis by (simp only: should_alert_def abuse malicious)
qed

lemma should_alert_positive:
  assumes "dict_get r ''Abuse Confidence'' = Some (PInt 0) \<or> dict_get r ''Malicious'' = Some (PInt 0)"
  shows "(should_alert r = Inr True) =
         (positive (dict_get_default r ''Abuse Confidence'' (PInt 0)) \<or>
          positive (dict_get_default r ''Malicious'' (PInt 0)))"
proof (cases "dict_get r ''Abuse Confidence'' = Some (PInt 0)")
  case True
  then show ?thesis
    by (cases "dict_get_default r ''Malicious'' (PInt 0)")
       (simp_all add: should_alert_def ebind_def dict_get_default_alt)
next
  case False
  with assms have m: "dict_get r ''Malicious'' = Some (PInt 0)" by simp
  then show ?thesis
    by (cases "dict_get_default r ''Abuse Confidence'' (PInt 0)")
       (simp_all add: should_alert_def ebind_def dict_get_default_alt)
qed

lemma alert_try_sends:
  assumes "check_alerts env r (world s) = (None, w1)"
    and "dict_get r ''IP'' = Some ipv"
  shows "(\<exists>x. SendEmail ipv r x \<in> set (drop (length (trace s)) (trace (snd (alert_try env r s))))) =
         (should_alert r = Inr True \<and> fst (st_success env ipv w1) = None)"
proof (cases "should_alert r")
  case (Inl e)
  with assms show ?thesis
    by (simp add: alert_try_def effect_def emit_def)
next
  case (Inr fires)
  show ?thesis
  proof (cases fires)
    case False
    with Inr assms show ?thesis
      by (simp add: alert_try_def effect_def emit_def)
  next
    case True
    obtain r2 w2 where notice: "st_success env ipv w1 = (r2, w2)"
      by (cases "st_success env ipv w1")
    show ?thesis
    proof (cases r2)
      case (Some e)
      with True Inr assms notice show ?thesis
        by (simp add: alert_try_def effect_def emit_def dict_index_def dict_get_def)
    next
      case None
      obtain r3 w3 where mail: "send_email_alert env ipv r w2 = (r3, w3)"
        by (cases "send_email_alert env ipv r w2")
      with None True Inr assms notice show ?thesis
        by (cases r3; cases "print env (PrintSent ipv) w3")
           (simp_all add: alert_try_def effect_def emit_def dict_index_def dict_get_def)
    qed
  qed
qed

text \<open>
  Claim C3. On a report whose Abuse Confidence and Malicious fields are numbers (or
  missing, which reads as 0), the alert condition evaluates to true exactly when one of
  the two is greater than 0. Attaching any risk label, \<^verbatim>\<open>"Error"\<close> included, does not
  change the condition. On every report that a lookup hands to the orchestrator,
  whatever the provider put into it, the condition is true exactly when one of the two
  fields is a number greater than 0. And in the alert step, once \<^verbatim>\<open>check_alerts\<close> has
  returned, the email is sent exactly when the condition is true and the notice on the
  page, which line 170 writes before the email is sent, was written.
\<close>

theorem should_alert_iff:
  "(field_int r ''Abuse Confidence'' = Some a \<and> field_int r ''Malicious'' = Some m \<longrightarrow>
      should_alert r = Inr (0 < a \<or> 0 < m)) \<and>
   should_alert (dict_set r ''AI Risk'' label) = should_alert r \<and>
   (resolve_report env ip s = (Inr (Some r), s1) \<longrightarrow>
      (should_alert (dict_set r ''AI Risk'' label) = Inr True) =
      (positive (dict_get_default r ''Abuse Confidence'' (PInt 0)) \<or>
       positive (dict_get_default r ''Malicious'' (PInt 0)))) \<and>
   (check_alerts env r (world s') = (None, w1) \<and> dict_get r ''IP'' = Some ipv \<longrightarrow>
      (\<exists>x. SendEmail ipv r x \<in>
            set (drop (length (trace s')) (trace (snd (alert_try env r s'))))) =
      (should_alert r = Inr True \<and> fst (st_success env ipv w1) = None))"
proof -
  have numeric: "field_int r ''Abuse Confidence'' = Some a \<and> field_int r ''Malicious'' = Some m \<longrightarrow>
      should_alert r = Inr (0 < a \<or> 0 < m)"
    by (auto simp: should_alert_def field_int_def dict_get_default_alt ebind_def
        split: option.splits pyval.splits if_splits)
  have produced: "resolve_report env ip s = (Inr (Some r), s1) \<longrightarrow>
      (should_alert (dict_set r ''AI Risk'' label) = Inr True) =
      (positive (dict_get_default r ''Abuse Confidence'' (PInt 0)) \<or>
       positive (dict_get_default r ''Malicious'' (PInt 0)))"
  proof
    assume "resolve_report env ip s = (Inr (Some r), s1)"
    from resolve_report_origin [OF this] obtain name out r0 where
      r0: "adapter_result name ip out = Inr (Some r0)"
      and r: "r = r0 \<or> r = dict_set r0 ''Source'' (PStr name)"
      by blast
    from adapter_result_literal_zero [OF r0] r
    have "dict_get r ''Abuse Confidence'' = Some (PInt 0) \<or>
        dict_get r ''Malicious'' = Some (PInt 0)"
      by (auto simp: dict_get_dict_set)
    from should_alert_positive [OF this] show
      "(should_alert (dict_set r ''AI Risk'' label) = Inr True) =
       (positive (dict_get_default r ''Abuse Confidence'' (PInt 0)) \<or>
        positive (dict_get_default r ''Malicious'' (PInt 0)))"
      by (simp add: should_alert_label)
  qed
  have sent: "check_alerts env r (world s') = (None, w1) \<and> dict_get r ''IP'' = Some ipv \<longrightarrow>
      (\<exists>x. SendEmail ipv r x \<in>
            set (drop (length (trace s')) (trace (snd (alert_try env r s'))))) =
      (should_alert r = Inr True \<and> fst (st_success env ipv w1) = None)"
    using alert_try_sends [of env r s' w1 ipv] by blast
  from numeric produced sent should_alert_label [of r label] show ?thesis by blast
qed

theorem should_alert_iff_witness:
  "field_int scored_report ''Abuse Confidence'' = Some 0 \<and>
   field_int scored_report ''Malicious'' = Some 3 \<and>
   should_alert scored_report = Inr True \<and>
   should_alert (dict_set scored_report ''AI Risk'' (PStr ''Error'')) = Inr True \<and>
   fst (resolve_report patchy_env ''3.3.3.3'' s0) = Inr (Some (abuse_report_of ''3.3.3.3'')) \<and>
   positive (dict_get_default (abuse_report_of ''3.3.3.3'') ''Abuse Confidence'' (PInt 0)) \<and>
   should_alert (dict_set (abuse_report_of ''3.3.3.3'') ''AI Risk'' (PStr ''High'')) = Inr True \<and>
   check_alerts patchy_env scored_report (world s0) = (None, ()) \<and>
   fst (st_success patchy_env (PStr ''8.8.8.8'') ()) = None \<and>
   (\<exists>x. SendEmail (PStr ''8.8.8.8'') scored_report x \<in>
         set (trace (snd (alert_try patchy_env scored_report s0))))"
proof -
  have a: "field_int scored_report ''Abuse Confidence'' = Some 0" by code_simp
  have m: "field_int scored_report ''Malicious'' = Some 3" by code_simp
  have checked: "check_alerts patchy_env scored_report (world s0) = (None, ())" by code_simp
  have notice: "fst (st_success patchy_env (PStr ''8.8.8.8'') ()) = None" by code_simp
  have addr: "dict_get scored_report ''IP'' = Some (PStr ''8.8.8.8'')" by code_simp
  have start: "length (trace s0) = 0" by code_simp
  note numeric = should_alert_iff [where r = scored_report and a = 0 and m = 3
      and label = "PStr ''Error''" and env = patchy_env and ip = "''8.8.8.8''" and s = s0
      and ?s1.0 = s0 and s' = s0 and ?w1.0 = "()" and ipv = "PStr ''8.8.8.8''"]
  from a m numeric have fires: "should_alert scored_report = Inr True \<and>
      should_alert (dict_set scored_report ''AI Risk'' (PStr ''Error'')) = Inr True"
    by simp
  from checked addr fires numeric start notice
  have sent: "\<exists>x. SendEmail (PStr ''8.8.8.8'') scored_report x \<in>
      set (trace (snd (alert_try patchy_env scored_report s0)))"
    by simp
  let ?r = "abuse_report_of ''3.3.3.3''"
  have found: "fst (resolve_report patchy_env ''3.3.3.3'' s0) = Inr (Some ?r)" by code_simp
  then have res: "resolve_report patchy_env ''3.3.3.3'' s0 =
      (Inr (Some ?r), snd (resolve_report patchy_env ''3.3.3.3'' s0))"
    by (simp add: prod_eq_iff)
  have pos: "positive (dict_get_default ?r ''Abuse Confidence'' (PInt 0))" by code_simp
  from res pos should_alert_iff [where r = ?r and env = patchy_env and ip = "''3.3.3.3''"
      and s = s0 and ?s1.0 = "snd (resolve_report patchy_env ''3.3.3.3'' s0)"
      and label = "PStr ''High''" and a = 0 and m = 0 and s' = s0 and ?w1.0 = "()"
      and ipv = PNone]
  have "should_alert (dict_set ?r ''AI Risk'' (PStr ''High'')) = Inr True"
    by blast
  with a m fires found pos checked notice sent show ?thesis by blast
qed

subsection \<open>The run over the IP list\<close>

lemma prepend_simps:
  "prepend rs (Inl e, s) = (Inl e, s)"
  "prepend rs (Inr rs', s) = (Inr (rs @ rs'), s)"
  by (simp_all add: prepend_def)

lemma prepend_Nil: "prepend [] out = out"
  by (cases out; cases "fst out") (auto simp: prepend_def split: sum.splits)

lemma prepend_prepend: "prepend xs (prepend ys out) = prepend (xs @ ys) out"
  by (auto simp: prepend_def split: prod.splits sum.splits)

lemma fst_prepend:
  "fst (prepend rs out) = (case fst out of Inl e \<Rightarrow> Inl e | Inr rs' \<Rightarrow> Inr (rs @ rs'))"
  by (auto simp: prepend_def split: prod.splits sum.splits)

lemma run_loop_acc: "run_loop env ips acc s = prepend acc (run_loop env ips [] s)"
proof (induction ips arbitrary: acc s)
  case Nil
  show ?case by (simp add: prepend_def)
next
  case (Cons ip ips)
  obtain res s' where body: "ip_body env ip s = (res, s')"
    by (cases "ip_body env ip s")
  show ?case
  proof (cases res)
    case (Inl e)
    obtain r s'' where
      pr: "effect (print env (PrintError ip e)) (Print (PrintError ip e)) s' = (r, s'')"
      by (cases "effect (print env (PrintError ip e)) (Print (PrintError ip e)) s'")
    show ?thesis
    proof (cases r)
      case None
      with body Inl pr Cons.IH [of acc s''] show ?thesis by simp
    next
      case (Some e')
      with body Inl pr show ?thesis by (simp add: prepend_def)
    qed
  next
    case (Inr found)
    show ?thesis
    proof (cases found)
      case None
      with body Inr Cons.IH [of acc s'] show ?thesis by simp
    next
      case (Some r)
      with body Inr Cons.IH [of "acc @ [r]" s'] Cons.IH [of "[r]" s'] show ?thesis
        by (simp add: prepend_prepend)
    qed
  qed
qed

lemma run_analysis_Nil: "run_analysis env [] s = (Inr [], s)"
  by (simp add: run_analysis_def)

lemma run_analysis_Cons:
  "run_analysis env (ip # ips) s =
     (case ip_body env ip s of
        (Inl e, s') \<Rightarrow>
          (case effect (print env (PrintError ip e)) (Print (PrintError ip e)) s' of
             (Some e', s'') \<Rightarrow> (Inl e', s'')
           | (None, s'') \<Rightarrow> run_analysis env ips s'')
      | (Inr None, s') \<Rightarrow> run_analysis env ips s'
      | (Inr (Some report), s') \<Rightarrow> prepend [report] (run_analysis env ips s'))"
proof -
  obtain res s' where body: "ip_body env ip s = (res, s')"
    by (cases "ip_body env ip s")
  show ?thesis
  proof (cases res)
    case (Inl e)
    with body show ?thesis
      by (simp add: run_analysis_def split: prod.splits option.splits)
  next
    case (Inr found)
    show ?thesis
    proof (cases found)
      case None
      with body Inr show ?thesis by (simp add: run_analysis_def)
    next
      case (Some r)
      with body Inr run_loop_acc [of env ips "[r]" s'] show ?thesis
        by (simp add: run_analysis_def)
    qed
  qed
qed

lemma fst_run_analysis_Cons:
  "fst (run_analysis env (ip # ips) s) =
     (case fst (ip_body env ip s) of
        Inl e \<Rightarrow>
          (case fst (print env (PrintError ip e) (world (snd (ip_body env ip s)))) of
             Some e' \<Rightarrow> Inl e'
           | None \<Rightarrow>
               fst (run_analysis env ips
                      (snd (effect (print env (PrintError ip e)) (Print (PrintError ip e))
                              (snd (ip_body env ip s))))))
      | Inr None \<Rightarrow> fst (run_analysis env ips (snd (ip_body env ip s)))
      | Inr (Some r) \<Rightarrow>
          (case fst (run_analysis env ips (snd (ip_body env ip s))) of
             Inl e \<Rightarrow> Inl e
           | Inr rs \<Rightarrow> Inr (r # rs)))"
proof -
  obtain res s' where body: "ip_body env ip s = (res, s')"
    by (cases "ip_body env ip s")
  show ?thesis
  proof (cases res)
    case (Inl e)
    obtain r s'' where
      pr: "effect (print env (PrintError ip e)) (Print (PrintError ip e)) s' = (r, s'')"
      by (cases "effect (print env (PrintError ip e)) (Print (PrintError ip e)) s'")
    from pr have "fst (print env (PrintError ip e) (world s')) = r"
      using fst_effect [of "print env (PrintError ip e)" "Print (PrintError ip e)" s'] by simp
    with body Inl pr show ?thesis
      by (cases r) (simp_all add: run_analysis_Cons)
  next
    case (Inr found)
    with body show ?thesis
      by (cases found) (simp_all add: run_analysis_Cons fst_prepend split: sum.splits)
  qed
qed

lemma run_analysis_append:
  "run_analysis env (xs @ ys) s =
     (case run_analysis env xs s of
        (Inl e, s') \<Rightarrow> (Inl e, s')
      | (Inr rs, s') \<Rightarrow> prepend rs (run_analysis env ys s'))"
proof (induction xs arbitrary: s)
  case Nil
  show ?case by (simp add: run_analysis_Nil prepend_Nil)
next
  case (Cons x xs)
  obtain res s' where body: "ip_body env x s = (res, s')"
    by (cases "ip_body env x s")
  show ?case
  proof (cases res)
    case (Inl e)
    obtain r s'' where
      pr: "effect (print env (PrintError x e)) (Print (PrintError x e)) s' = (r, s'')"
      by (cases "effect (print env (PrintError x e)) (Print (PrintError x e)) s'")
    with body Inl Cons.IH [of s''] show ?thesis
      by (cases r) (simp_all add: run_analysis_Cons)
  next
    case (Inr found)
    show ?thesis
    proof (cases found)
      case None
      with body Inr Cons.IH [of s'] show ?thesis by (simp add: run_analysis_Cons)
    next
      case (Some r)
      obtain out s'' where rest: "run_analysis env xs s' = (out, s'')"
        by (cases "run_analysis env xs s'")
      with body Inr Some Cons.IH [of s'] show ?thesis
        by (cases out) (simp_all add: run_analysis_Cons prepend_simps prepend_prepend)
    qed
  qed
qed

lemma run_analysis_single:
  "fst (run_analysis env [x] s) = Inr rs \<Longrightarrow>
     rs = (case fst (ip_body env x s) of Inl e \<Rightarrow> [] | Inr None \<Rightarrow> [] | Inr (Some r) \<Rightarrow> [r])"
  by (auto simp: fst_run_analysis_Cons run_analysis_Nil split: sum.splits option.splits)

lemma run_analysis_snoc_returns:
  assumes "fst (run_analysis env (xs @ [x]) s) = Inr rs"
  obtains rs0 rs1 where
    "fst (run_analysis env xs s) = Inr rs0"
    "fst (run_analysis env [x] (snd (run_analysis env xs s))) = Inr rs1"
    "rs = rs0 @ rs1"
proof -
  obtain out s1 where pre: "run_analysis env xs s = (out, s1)"
    by (cases "run_analysis env xs s")
  with assms obtain rs0 where out: "out = Inr rs0"
    by (cases out) (simp_all add: run_analysis_append)
  obtain out1 s2 where one: "run_analysis env [x] s1 = (out1, s2)"
    by (cases "run_analysis env [x] s1")
  with assms pre out obtain rs1 where "out1 = Inr rs1" "rs = rs0 @ rs1"
    by (cases out1) (simp_all add: run_analysis_append prepend_simps)
  with pre out one that show thesis by simp
qed

lemma map_filter_cong_set:
  "(\<And>x. x \<in> set xs \<Longrightarrow> f x = g x) \<Longrightarrow> List.map_filter f xs = List.map_filter g xs"
  by (induction xs) (auto simp: map_filter_simps split: option.splits)

lemma map_filter_snoc:
  "List.map_filter f (xs @ [x]) =
     List.map_filter f xs @ (case f x of None \<Rightarrow> [] | Some y \<Rightarrow> [y])"
  by (induction xs) (auto simp: map_filter_simps split: option.splits)

lemma results_outcomes:
  "fst (run_analysis env ips s) = Inr rs \<Longrightarrow>
     rs = List.map_filter (outcome env ips s) [0..<length ips]"
proof (induction ips arbitrary: rs rule: rev_induct)
  case Nil
  then show ?case by (simp add: run_analysis_Nil map_filter_simps)
next
  case (snoc x xs)
  from snoc.prems obtain rs0 rs1 where
    pre: "fst (run_analysis env xs s) = Inr rs0"
    and one: "fst (run_analysis env [x] (snd (run_analysis env xs s))) = Inr rs1"
    and rs: "rs = rs0 @ rs1"
    by (rule run_analysis_snoc_returns)
  have same: "outcome env (xs @ [x]) s i = outcome env xs s i" if "i \<in> set [0..<length xs]" for i
    using that by (simp add: outcome_def state_before_def nth_append)
  have older: "List.map_filter (outcome env (xs @ [x]) s) [0..<length xs] =
      List.map_filter (outcome env xs s) [0..<length xs]"
    by (rule map_filter_cong_set) (rule same)
  have last: "outcome env (xs @ [x]) s (length xs) =
      (case fst (ip_body env x (snd (run_analysis env xs s))) of
         Inl e \<Rightarrow> None | Inr None \<Rightarrow> None | Inr (Some r) \<Rightarrow> Some r)"
    by (simp add: outcome_def state_before_def)
  from run_analysis_single [OF one] snoc.IH [OF pre] rs
  have "rs = List.map_filter (outcome env xs s) [0..<length xs] @
      (case fst (ip_body env x (snd (run_analysis env xs s))) of
         Inl e \<Rightarrow> [] | Inr None \<Rightarrow> [] | Inr (Some r) \<Rightarrow> [r])"
    by simp
  also have "\<dots> = List.map_filter (outcome env (xs @ [x]) s) [0..<length (xs @ [x])]"
    by (simp add: map_filter_snoc last older split: sum.splits option.splits)
  finally show ?case .
qed

lemma results_subseq:
  "fst (run_analysis env ips s) = Inr rs \<Longrightarrow>
     subseq (map (\<lambda>r. dict_get r ''IP'') rs) (map (\<lambda>ip. Some (PStr ip)) ips)"
proof (induction ips arbitrary: s rs)
  case Nil
  then show ?case by (simp add: run_analysis_Nil)
next
  case (Cons ip ips)
  obtain res s' where body: "ip_body env ip s = (res, s')"
    by (cases "ip_body env ip s")
  show ?case
  proof (cases res)
    case (Inl e)
    let ?s'' = "snd (effect (print env (PrintError ip e)) (Print (PrintError ip e)) s')"
    from Cons.prems body Inl have "fst (run_analysis env ips ?s'') = Inr rs"
      by (auto simp: fst_run_analysis_Cons split: option.splits)
    from Cons.IH [OF this] show ?thesis by (simp add: list_emb_Cons)
  next
    case (Inr found)
    show ?thesis
    proof (cases found)
      case None
      with Cons.prems body Inr have "fst (run_analysis env ips s') = Inr rs"
        by (simp add: fst_run_analysis_Cons)
      from Cons.IH [OF this] show ?thesis by (simp add: list_emb_Cons)
    next
      case (Some r)
      with Cons.prems body Inr obtain rs' where
        rest: "fst (run_analysis env ips s') = Inr rs'" and rs: "rs = r # rs'"
        by (auto simp: fst_run_analysis_Cons split: sum.splits)
      from body Inr Some ip_body_ip [of env ip s r s'] Cons.IH [OF rest] rs show ?thesis
        by simp
    qed
  qed
qed



text \<open>
  The four kinds of IP of the patchy environment, in any state: the provider is down,
  the provider is silent, the report is labelled and stored, the store fails. Every
  text is written there.
\<close>

lemma patchy_unreachable:
  "fst (ip_body patchy_env ''1.1.1.1'' s) = Inl (OtherError ''ConnectionError'')"
  by code_simp

lemma patchy_absent: "fst (resolve_report patchy_env ''2.2.2.2'' s) = Inr None"
  by code_simp

lemma patchy_scored:
  "fst (ip_body patchy_env ''3.3.3.3'' s) = Inr (Some (labelled_report_of ''3.3.3.3''))"
  by code_simp



lemma patchy_print: "print patchy_env msg w = (None, w)"
  by (simp add: patchy_env_def test_env_def)




text \<open>
  Claim C6. The list that a run returns is the list of the outcomes of the positions of
  the input, in input order, the positions without a report left out. The report at a
  position carries the IP of that position, a position whose lookup returned absent
  contributes nothing, and the IPs of the result form a subsequence of the input.
\<close>

theorem results_preserve_input_order:
  assumes "fst (run_analysis env ips s) = Inr rs"
  shows "rs = List.map_filter (outcome env ips s) [0..<length ips] \<and>
   (\<forall>i < length ips. \<forall>r.
      outcome env ips s i = Some r \<longrightarrow> dict_get r ''IP'' = Some (PStr (ips ! i))) \<and>
   (\<forall>i < length ips.
      fst (resolve_report env (ips ! i) (state_before env ips s i)) = Inr None \<longrightarrow>
        outcome env ips s i = None) \<and>
   subseq (map (\<lambda>r. dict_get r ''IP'') rs) (map (\<lambda>ip. Some (PStr ip)) ips)"
proof -
  have ip: "\<forall>i < length ips. \<forall>r.
      outcome env ips s i = Some r \<longrightarrow> dict_get r ''IP'' = Some (PStr (ips ! i))"
  proof (intro allI impI)
    fix i r
    assume "outcome env ips s i = Some r"
    then have "fst (ip_body env (ips ! i) (state_before env ips s i)) = Inr (Some r)"
      by (simp add: outcome_def split: sum.splits option.splits)
    then show "dict_get r ''IP'' = Some (PStr (ips ! i))"
      using ip_body_ip [of env "ips ! i" "state_before env ips s i" r]
      by (cases "ip_body env (ips ! i) (state_before env ips s i)") simp
  qed
  have absent: "\<forall>i < length ips.
      fst (resolve_report env (ips ! i) (state_before env ips s i)) = Inr None \<longrightarrow>
        outcome env ips s i = None"
    by (simp add: outcome_def ip_body_absent)
  from results_outcomes [OF assms] ip absent results_subseq [OF assms]
  show ?thesis by blast
qed

theorem results_preserve_input_order_witness:
  "fst (run_analysis patchy_env [''1.1.1.1'', ''2.2.2.2'', ''3.3.3.3''] s0) =
     Inr [labelled_report_of ''3.3.3.3''] \<and>
   [labelled_report_of ''3.3.3.3''] =
     List.map_filter (outcome patchy_env [''1.1.1.1'', ''2.2.2.2'', ''3.3.3.3''] s0) [0..<3] \<and>
   outcome patchy_env [''1.1.1.1'', ''2.2.2.2'', ''3.3.3.3''] s0 1 = None \<and>
   subseq [Some (PStr ''3.3.3.3'')]
     [Some (PStr ''1.1.1.1''), Some (PStr ''2.2.2.2''), Some (PStr ''3.3.3.3'')]"
proof -
  let ?ips = "[''1.1.1.1'', ''2.2.2.2'', ''3.3.3.3'']"
  have skipped: "fst (ip_body patchy_env ''2.2.2.2'' s) = Inr None" for s
    by (simp add: ip_body_absent patchy_absent)
  have results: "fst (run_analysis patchy_env ?ips s0) = Inr [labelled_report_of ''3.3.3.3'']"
    by (simp add: fst_run_analysis_Cons patchy_unreachable patchy_print skipped patchy_scored
        run_analysis_Nil)
  note inst = results_preserve_input_order [OF results]
  have len: "length ?ips = 3" by simp
  note outcomes = inst [THEN conjunct1, unfolded len]
  have "fst (resolve_report patchy_env (?ips ! 1) (state_before patchy_env ?ips s0 1)) = Inr None"
    by (simp add: patchy_absent)
  with inst have absent: "outcome patchy_env ?ips s0 1 = None" by simp
  have "dict_get (labelled_report_of ''3.3.3.3'') ''IP'' = Some (PStr ''3.3.3.3'')" by code_simp
  with inst have sub: "subseq [Some (PStr ''3.3.3.3'')]
     [Some (PStr ''1.1.1.1''), Some (PStr ''2.2.2.2''), Some (PStr ''3.3.3.3'')]"
    by simp
  from results outcomes absent sub show ?thesis by (intro conjI)
qed


text \<open>
  The \<^verbatim>\<open>print\<close> of the outer handler stands outside every \<^verbatim>\<open>try\<close>. When it raises, the
  run raises that error: the reports collected before are not returned and the remaining
  IPs are not processed. With a standard output that is closed, the run over an IP whose
  provider is down raises the \<^verbatim>\<open>ValueError\<close> of \<^verbatim>\<open>print\<close>. The statements for claim C7
  below say nothing about a run in which this \<^verbatim>\<open>print\<close> raises.
\<close>

lemma handler_print_raises:
  assumes "run_analysis env pre s = (Inr rs, s1)"
    and "ip_body env ip s1 = (Inl e, s2)"
    and "print env (PrintError ip e) (world s2) = (Some e', w3)"
  shows "run_analysis env (pre @ ip # post) s =
           (Inl e', emit (Print (PrintError ip e) (Some e')) (s2\<lparr>world := w3\<rparr>))"
  using assms by (simp add: run_analysis_append run_analysis_Cons effect_eq prepend_simps)

lemma closed_stdout_run_raises:
  "fst (run_analysis closed_stdout_env [''1.1.1.1'', ''3.3.3.3''] s0) =
     Inl (OtherError ''ValueError'')"
  by code_simp



end
